theory Spec2Isabelle
  imports Complex_Main "HOL-Library.Sublist"
begin

section \<open>Data model\<close>

text \<open>
  The program keeps one global dictionary \<^verbatim>\<open>state\<close>, keyed by the decimal rendering of
  the guild id. Each value is a dictionary with the keys \<^verbatim>\<open>adminIDs\<close>, \<^verbatim>\<open>targetIDs\<close>
  and \<^verbatim>\<open>message\<close>; it is modelled as a record, so only well-formed guild entries are
  in the model. User and guild ids are Python integers.
\<close>

record guild_state =
  adminIDs :: "int list"
  targetIDs :: "int list"
  message :: string

type_synonym state_doc = "string \<rightharpoonup> guild_state"

subsection \<open>Python's \<^verbatim>\<open>str\<close> on integers\<close>

definition digit_char :: "nat \<Rightarrow> char" where
  "digit_char d = ''0123456789'' ! d"

fun str_nat :: "nat \<Rightarrow> string" where
  "str_nat n = (if n < 10 then [digit_char n] else str_nat (n div 10) @ [digit_char (n mod 10)])"

declare str_nat.simps [simp del]

definition py_str :: "int \<Rightarrow> string" where
  "py_str i = (if i < 0 then CHR ''-'' # str_nat (nat (- i)) else str_nat (nat i))"

subsection \<open>The environment and the mutable world\<close>

text \<open>
  Exceptions are values. Only the classes that the handlers of the source tell apart
  are kept; the string is the text of the exception (\<^verbatim>\<open>str(e)\<close>).
\<close>

datatype py_exn = IOError string | JSONDecodeError string | OtherException string

fun exn_text :: "py_exn \<Rightarrow> string" where
  "exn_text (IOError s) = s"
| "exn_text (JSONDecodeError s) = s"
| "exn_text (OtherException s) = s"

text \<open>
  One attempt to open \<^verbatim>\<open>state.json\<close> for writing and dump the document either works or
  raises. What the file system answers is not decided by the program, so it is an
  oracle: \<open>fs e k\<close> is the outcome of the \<open>k\<close>-th write attempt of the process. In the
  same way \<open>clock e k\<close> is what the \<open>k\<close>-th call of \<^verbatim>\<open>datetime.now().timestamp()\<close> returns
  (a float in the source, a real number here: the difference of two nearby timestamps
  is exact in binary floating point), and \<open>client_user e\<close> is the id of the bot's own
  account.
\<close>

datatype write_outcome = WriteOk | WriteRaises py_exn

record env =
  fs :: "nat \<Rightarrow> write_outcome"
  clock :: "nat \<Rightarrow> real"
  client_user :: int

text \<open>
  The trace of what the process did to the outside: every write attempt, with the
  document it tried to dump and the outcome, and every \<^verbatim>\<open>time.sleep\<close>.
\<close>

datatype io_event = Write state_doc write_outcome | Sleep real

record world =
  state :: state_doc
  pending_confirmations :: "string \<rightharpoonup> real"
  nwrites :: nat
  nclock :: nat
  io_log :: "io_event list"

section \<open>Persistence layer\<close>

definition MAX_SAVE_RETRIES :: nat where
  "MAX_SAVE_RETRIES = 3"

definition RETRY_DELAY :: real where
  "RETRY_DELAY = 0.5"

text \<open>
  What \<^verbatim>\<open>os.path.exists\<close>, \<^verbatim>\<open>open\<close> and \<^verbatim>\<open>json.load\<close> can do in \<^verbatim>\<open>load_state\<close>:
  the file is not there, reading raises, or the content parses to a document.
\<close>

datatype store_condition = FileAbsent | ReadRaises py_exn | Parses state_doc

text \<open>
  \<^verbatim>\<open>load_state\<close>: the body of the \<^verbatim>\<open>try\<close> first, then the \<^verbatim>\<open>except\<close> clauses in the
  order of the source. The result is a sum so that an exception that no clause caught
  would show as \<open>Inl\<close>.
\<close>

definition load_state_body :: "store_condition \<Rightarrow> py_exn + state_doc" where
  "load_state_body c =
     (case c of
        Parses data \<Rightarrow> Inr data
      | ReadRaises x \<Rightarrow> Inl x
      | FileAbsent \<Rightarrow> Inr Map.empty)"

definition load_state :: "store_condition \<Rightarrow> py_exn + state_doc" where
  "load_state c =
     (case load_state_body c of
        Inr data \<Rightarrow> Inr data
      | Inl (JSONDecodeError s) \<Rightarrow> Inr Map.empty
      | Inl (IOError s) \<Rightarrow> Inr Map.empty
      | Inl (OtherException s) \<Rightarrow> Inr Map.empty)"

text \<open>
  \<^verbatim>\<open>save_state\<close>: the \<^verbatim>\<open>for attempt in range(MAX_SAVE_RETRIES)\<close> loop as a recursion on
  \<open>attempt\<close>. The two \<^verbatim>\<open>except\<close> clauses (\<^verbatim>\<open>IOError\<close> and \<^verbatim>\<open>Exception\<close>) differ only in
  the level of the log line, so one branch stands for both. After the loop the source
  raises a new \<^verbatim>\<open>IOError\<close> whose text ends with the text of \<^verbatim>\<open>last_error\<close>.
\<close>

definition save_failure :: "py_exn option \<Rightarrow> py_exn" where
  "save_failure last_error =
     IOError (''Failed to save state after '' @ str_nat MAX_SAVE_RETRIES @ '' attempts: ''
              @ (case last_error of None \<Rightarrow> ''None'' | Some x \<Rightarrow> exn_text x))"

function save_loop :: "env \<Rightarrow> nat \<Rightarrow> py_exn option \<Rightarrow> world \<Rightarrow> (py_exn + unit) \<times> world" where
  "save_loop e attempt last_error w =
     (if attempt < MAX_SAVE_RETRIES then
        (let outcome = fs e (nwrites w);
             w1 = w\<lparr>nwrites := nwrites w + 1, io_log := io_log w @ [Write (state w) outcome]\<rparr>
         in case outcome of
              WriteOk \<Rightarrow> (Inr (), w1)
            | WriteRaises x \<Rightarrow>
                save_loop e (attempt + 1) (Some x)
                  (if attempt < MAX_SAVE_RETRIES - 1
                   then w1\<lparr>io_log := io_log w1 @ [Sleep RETRY_DELAY]\<rparr>
                   else w1))
      else (Inl (save_failure last_error), w))"
  by pat_completeness auto
termination
  by (relation "measure (\<lambda>(e, attempt, last_error, w). MAX_SAVE_RETRIES - attempt)") auto

declare save_loop.simps [simp del]

definition save_state :: "env \<Rightarrow> world \<Rightarrow> (py_exn + unit) \<times> world" where
  "save_state e w = save_loop e 0 None w"

section \<open>Tenant state accessor\<close>

text \<open>
  \<^verbatim>\<open>get_guild_state\<close> returns a reference into \<^verbatim>\<open>state\<close>; the model returns the entry
  and the world in which it is stored. The \<^verbatim>\<open>IOError\<close> of the save after adding the
  owner is caught and logged, so its result is dropped.
\<close>

definition get_guild_state :: "env \<Rightarrow> world \<Rightarrow> int \<Rightarrow> int option \<Rightarrow> guild_state \<times> world" where
  "get_guild_state e w guild_id owner_id =
     (let guild_key = py_str guild_id in
      case state w guild_key of
        None \<Rightarrow>
          (let admin_ids = (case owner_id of None \<Rightarrow> [] | Some ow \<Rightarrow> [ow]);
               gs = \<lparr>adminIDs = admin_ids, targetIDs = [], message = ''''\<rparr>
           in (gs, w\<lparr>state := (state w)(guild_key \<mapsto> gs)\<rparr>))
      | Some gs \<Rightarrow>
          (if owner_id \<noteq> None \<and> the owner_id \<notin> set (adminIDs gs) then
             (let gs' = gs\<lparr>adminIDs := adminIDs gs @ [the owner_id]\<rparr>;
                  w1 = w\<lparr>state := (state w)(guild_key \<mapsto> gs')\<rparr>
              in (gs', snd (save_state e w1)))
           else (gs, w)))"

section \<open>Authorization engine\<close>

definition is_admin :: "env \<Rightarrow> world \<Rightarrow> int \<Rightarrow> int \<Rightarrow> int \<Rightarrow> bool \<times> world" where
  "is_admin e w guild_id user_id owner_id =
     (if user_id = owner_id then (True, w)
      else (let (gs, w1) = get_guild_state e w guild_id (Some owner_id)
            in (user_id \<in> set (adminIDs gs), w1)))"

definition is_target :: "env \<Rightarrow> world \<Rightarrow> int \<Rightarrow> int \<Rightarrow> int option \<Rightarrow> bool \<times> world" where
  "is_target e w guild_id user_id owner_id =
     (let (gs, w1) = get_guild_state e w guild_id owner_id
      in (user_id \<in> set (targetIDs gs), w1))"

section \<open>Confirmation manager\<close>

text \<open>The key of a pending confirmation is the f-string \<^verbatim>\<open>f"{guild_id}_{user_id}"\<close>.\<close>

definition conf_key :: "int \<Rightarrow> int \<Rightarrow> string" where
  "conf_key guild_id user_id = py_str guild_id @ ''_'' @ py_str user_id"

definition now_timestamp :: "env \<Rightarrow> world \<Rightarrow> real \<times> world" where
  "now_timestamp e w = (clock e (nclock w), w\<lparr>nclock := nclock w + 1\<rparr>)"

definition request_confirmation :: "env \<Rightarrow> world \<Rightarrow> int \<Rightarrow> int \<Rightarrow> world" where
  "request_confirmation e w guild_id user_id =
     (let key = conf_key guild_id user_id;
          (t, w1) = now_timestamp e w
      in w1\<lparr>pending_confirmations := (pending_confirmations w1)(key \<mapsto> t)\<rparr>)"

definition check_confirmation :: "env \<Rightarrow> world \<Rightarrow> int \<Rightarrow> int \<Rightarrow> bool \<times> world" where
  "check_confirmation e w guild_id user_id =
     (let key = conf_key guild_id user_id in
      case pending_confirmations w key of
        None \<Rightarrow> (False, w)
      | Some request_time \<Rightarrow>
          (let (current_time, w1) = now_timestamp e w in
           if current_time - request_time \<le> 60 then (True, w1)
           else (False, w1\<lparr>pending_confirmations := (pending_confirmations w1)(key := None)\<rparr>)))"

definition clear_confirmation :: "world \<Rightarrow> int \<Rightarrow> int \<Rightarrow> world" where
  "clear_confirmation w guild_id user_id =
     (let key = conf_key guild_id user_id in
      if key \<in> dom (pending_confirmations w)
      then w\<lparr>pending_confirmations := (pending_confirmations w)(key := None)\<rparr>
      else w)"

section \<open>Message monitoring\<close>

text \<open>
  What \<^verbatim>\<open>on_message\<close> reads of a chat message: the author's id and bot flag, and the
  guild (its id and the id of its owner), absent for a direct message. Two users of
  the platform library are equal when their ids are, so \<^verbatim>\<open>message.author == client.user\<close>
  is a comparison of ids. The handler returns the text it asks \<^verbatim>\<open>message.reply\<close> to
  send, if any; a failure of the sending is caught and logged in the source.
\<close>

record guild =
  g_id :: int
  g_owner_id :: int

record chat_message =
  m_author_id :: int
  m_author_bot :: bool
  m_guild :: "guild option"

definition on_message :: "env \<Rightarrow> world \<Rightarrow> chat_message \<Rightarrow> string option \<times> world" where
  "on_message e w msg =
     (if m_author_id msg = client_user e then (None, w)
      else case m_guild msg of
        None \<Rightarrow> (None, w)
      | Some g \<Rightarrow>
          (let guild_id = g_id g;
               author_id = m_author_id msg;
               owner_id = g_owner_id g;
               (targeted, w1) = is_target e w guild_id author_id (Some owner_id)
           in if targeted then
                (let (gs, w2) = get_guild_state e w1 guild_id (Some owner_id);
                     reply_message = message gs
                 in if reply_message \<noteq> [] then (Some reply_message, w2) else (None, w2))
              else (None, w1)))"

section \<open>Command handlers\<close>

text \<open>
  An interaction carries the guild id, the id of the invoking user and the id of the
  guild's owner; the user argument of a command carries its id and bot flag. The
  action of \<^verbatim>\<open>/admin\<close> and \<^verbatim>\<open>/target\<close> is one of the two declared choices.
\<close>

record interaction =
  i_guild_id :: int
  i_user_id :: int
  i_owner_id :: int

record user =
  u_id :: int
  u_bot :: bool

datatype action = Add | Remove

text \<open>
  The texts sent with \<^verbatim>\<open>interaction.response.send_message\<close>, one constructor for each,
  in the order of the source; the integer is the user mentioned in the text:
  \<^item> \<open>NoPermission\<close>: ``You do not have permission to use this command.''
  \<^item> \<open>CannotAddBotAdmin\<close>: ``Cannot add bots to the admin list.''
  \<^item> \<open>AlreadyAdmin\<close>: ``User ... is already an admin.''
  \<^item> \<open>AddedAdmin\<close>: ``Successfully added ... as an admin.''
  \<^item> \<open>SaveFailed\<close>: ``Failed to save configuration. Please try again.''
  \<^item> \<open>CannotRemoveOwner\<close>: ``Cannot remove the server owner from admin list.''
  \<^item> \<open>NotAnAdmin\<close>: ``User ... is not an admin.''
  \<^item> \<open>SelfRemoved\<close>: ``You have been removed from the admin list.''
  \<^item> \<open>ConfirmPrompt\<close>: ``Are you sure you want to remove yourself as admin? Use the
    command again within 60 seconds to confirm.''
  \<^item> \<open>RemovedAdmin\<close>: ``Successfully removed ... from admin list.''
  \<^item> \<open>CannotAddBotTarget\<close>: ``Cannot add bots to the target list.''
  \<^item> \<open>AlreadyTarget\<close>: ``User ... is already in the target list.''
  \<^item> \<open>AddedTarget\<close>: ``Successfully added ... to the target list.''
  \<^item> \<open>NotATarget\<close>: ``User ... is not in the target list.''
  \<^item> \<open>RemovedTarget\<close>: ``Successfully removed ... from the target list.''
  \<^item> \<open>MessageSet\<close>: ``Successfully set the message to: ...''
\<close>

datatype response =
    NoPermission
  | CannotAddBotAdmin
  | AlreadyAdmin int
  | AddedAdmin int
  | SaveFailed
  | CannotRemoveOwner
  | NotAnAdmin int
  | SelfRemoved
  | ConfirmPrompt
  | RemovedAdmin int
  | CannotAddBotTarget
  | AlreadyTarget int
  | AddedTarget int
  | NotATarget int
  | RemovedTarget int
  | MessageSet string

text \<open>
  The block \<^verbatim>\<open>try: save_state(state); send(ok) except IOError: send(failure)\<close> that ends
  every mutating branch. \<^verbatim>\<open>save_state\<close> raises nothing but \<^verbatim>\<open>IOError\<close>.
\<close>

definition save_and_report :: "env \<Rightarrow> world \<Rightarrow> response \<Rightarrow> response \<times> world" where
  "save_and_report e w ok =
     (case save_state e w of
        (Inr u, w') \<Rightarrow> (ok, w')
      | (Inl x, w') \<Rightarrow> (SaveFailed, w'))"

text \<open>
  A handler mutates the entry it got from \<^verbatim>\<open>get_guild_state\<close> in place; in the model
  the changed entry is stored back under the guild's key.
\<close>

definition store_guild :: "world \<Rightarrow> int \<Rightarrow> guild_state \<Rightarrow> world" where
  "store_guild w guild_id gs = w\<lparr>state := (state w)(py_str guild_id \<mapsto> gs)\<rparr>"

definition admin_command :: "env \<Rightarrow> world \<Rightarrow> interaction \<Rightarrow> action \<Rightarrow> user \<Rightarrow> response \<times> world" where
  "admin_command e w ia act usr =
     (let guild_id = i_guild_id ia;
          executor_id = i_user_id ia;
          owner_id = i_owner_id ia;
          target_user_id = u_id usr;
          (allowed, w1) = is_admin e w guild_id executor_id owner_id
      in if \<not> allowed then (NoPermission, w1)
         else
           (let (gs, w2) = get_guild_state e w1 guild_id None in
            case act of
              Add \<Rightarrow>
                if u_bot usr then (CannotAddBotAdmin, w2)
                else if target_user_id \<in> set (adminIDs gs) \<or> target_user_id = owner_id
                then (AlreadyAdmin target_user_id, w2)
                else save_and_report e
                       (store_guild w2 guild_id (gs\<lparr>adminIDs := adminIDs gs @ [target_user_id]\<rparr>))
                       (AddedAdmin target_user_id)
            | Remove \<Rightarrow>
                if target_user_id = owner_id then (CannotRemoveOwner, w2)
                else if target_user_id \<notin> set (adminIDs gs) then (NotAnAdmin target_user_id, w2)
                else if target_user_id = executor_id then
                  (let (confirmed, w3) = check_confirmation e w2 guild_id executor_id in
                   if confirmed then
                     save_and_report e
                       (clear_confirmation
                          (store_guild w3 guild_id (gs\<lparr>adminIDs := remove1 target_user_id (adminIDs gs)\<rparr>))
                          guild_id executor_id)
                       SelfRemoved
                   else (ConfirmPrompt, request_confirmation e w3 guild_id executor_id))
                else save_and_report e
                       (store_guild w2 guild_id (gs\<lparr>adminIDs := remove1 target_user_id (adminIDs gs)\<rparr>))
                       (RemovedAdmin target_user_id)))"

definition target_command :: "env \<Rightarrow> world \<Rightarrow> interaction \<Rightarrow> action \<Rightarrow> user \<Rightarrow> response \<times> world" where
  "target_command e w ia act usr =
     (let guild_id = i_guild_id ia;
          executor_id = i_user_id ia;
          owner_id = i_owner_id ia;
          target_user_id = u_id usr;
          (allowed, w1) = is_admin e w guild_id executor_id owner_id
      in if \<not> allowed then (NoPermission, w1)
         else
           (let (gs, w2) = get_guild_state e w1 guild_id (Some owner_id) in
            case act of
              Add \<Rightarrow>
                if u_bot usr then (CannotAddBotTarget, w2)
                else if target_user_id \<in> set (targetIDs gs) then (AlreadyTarget target_user_id, w2)
                else save_and_report e
                       (store_guild w2 guild_id (gs\<lparr>targetIDs := targetIDs gs @ [target_user_id]\<rparr>))
                       (AddedTarget target_user_id)
            | Remove \<Rightarrow>
                if target_user_id \<notin> set (targetIDs gs) then (NotATarget target_user_id, w2)
                else save_and_report e
                       (store_guild w2 guild_id (gs\<lparr>targetIDs := remove1 target_user_id (targetIDs gs)\<rparr>))
                       (RemovedTarget target_user_id)))"

definition setmessage_command :: "env \<Rightarrow> world \<Rightarrow> interaction \<Rightarrow> string \<Rightarrow> response \<times> world" where
  "setmessage_command e w ia text =
     (let guild_id = i_guild_id ia;
          executor_id = i_user_id ia;
          owner_id = i_owner_id ia;
          (allowed, w1) = is_admin e w guild_id executor_id owner_id
      in if \<not> allowed then (NoPermission, w1)
         else
           (let (gs, w2) = get_guild_state e w1 guild_id (Some owner_id)
            in save_and_report e (store_guild w2 guild_id (gs\<lparr>message := text\<rparr>)) (MessageSet text)))"

section \<open>Observations, event sequences and example inputs\<close>

text \<open>
  The lists and the message of a guild as the program sees them. A guild without an
  entry has the default configuration: \<^verbatim>\<open>get_guild_state\<close> creates the entry with empty
  lists and the empty message before anything reads it.
\<close>

definition admins_of :: "world \<Rightarrow> int \<Rightarrow> int list" where
  "admins_of w g = (case state w (py_str g) of None \<Rightarrow> [] | Some gs \<Rightarrow> adminIDs gs)"

definition targets_of :: "world \<Rightarrow> int \<Rightarrow> int list" where
  "targets_of w g = (case state w (py_str g) of None \<Rightarrow> [] | Some gs \<Rightarrow> targetIDs gs)"

definition message_of :: "world \<Rightarrow> int \<Rightarrow> string" where
  "message_of w g = (case state w (py_str g) of None \<Rightarrow> [] | Some gs \<Rightarrow> message gs)"

text \<open>No user id occurs twice in a list of admins or of targets.\<close>

definition no_duplicates :: "world \<Rightarrow> bool" where
  "no_duplicates w =
     (\<forall>k gs. state w k = Some gs \<longrightarrow> distinct (adminIDs gs) \<and> distinct (targetIDs gs))"

text \<open>
  The event loop runs one handler at a time to its end. An operation is one call of a
  handler or of the accessor; a sequence of operations threads the world through them.
\<close>

datatype operation =
    AdminOp interaction action user
  | TargetOp interaction action user
  | SetMessageOp interaction string
  | MessageOp chat_message
  | AccessorOp int "int option"

fun apply_op :: "env \<Rightarrow> world \<Rightarrow> operation \<Rightarrow> world" where
  "apply_op e w (AdminOp ia act usr) = snd (admin_command e w ia act usr)"
| "apply_op e w (TargetOp ia act usr) = snd (target_command e w ia act usr)"
| "apply_op e w (SetMessageOp ia text) = snd (setmessage_command e w ia text)"
| "apply_op e w (MessageOp msg) = snd (on_message e w msg)"
| "apply_op e w (AccessorOp guild_id owner_id) = snd (get_guild_state e w guild_id owner_id)"

definition run_ops :: "env \<Rightarrow> world \<Rightarrow> operation list \<Rightarrow> world" where
  "run_ops e w ops = foldl (apply_op e) w ops"

text \<open>
  Example inputs: a file system on which every write works, one on which every write
  fails (with the clock at 160), one on which only the first write fails; the world
  at the start of the process; worlds in which guild 1 has some members, one of them
  with a confirmation of user 5 pending since 100.
\<close>

definition healthy_env :: env where
  "healthy_env = \<lparr>fs = (\<lambda>k. WriteOk), clock = (\<lambda>k. 0), client_user = 999\<rparr>"

definition failing_env :: env where
  "failing_env = \<lparr>fs = (\<lambda>k. WriteRaises (IOError ''disk full'')), clock = (\<lambda>k. 160),
                   client_user = 999\<rparr>"

definition flaky_env :: env where
  "flaky_env = \<lparr>fs = (\<lambda>k. if k = 0 then WriteRaises (IOError ''disk full'') else WriteOk),
                 clock = (\<lambda>k. 0), client_user = 999\<rparr>"

definition fresh_world :: world where
  "fresh_world = \<lparr>state = Map.empty, pending_confirmations = Map.empty,
                   nwrites = 0, nclock = 0, io_log = []\<rparr>"

definition world_one_admin :: world where
  "world_one_admin =
     \<lparr>state = [''1'' \<mapsto> \<lparr>adminIDs = [5], targetIDs = [], message = []\<rparr>],
      pending_confirmations = Map.empty, nwrites = 0, nclock = 0, io_log = []\<rparr>"

definition env_at :: "real \<Rightarrow> env" where
  "env_at t = \<lparr>fs = (\<lambda>k. WriteOk), clock = (\<lambda>k. t), client_user = 999\<rparr>"

definition world_pending :: world where
  "world_pending = world_one_admin\<lparr>pending_confirmations := [''1_5'' \<mapsto> 100]\<rparr>"

fun repeat_accessor :: "nat \<Rightarrow> env \<Rightarrow> world \<Rightarrow> int \<Rightarrow> int option \<Rightarrow> world" where
  "repeat_accessor 0 e w guild_id owner_id = w"
| "repeat_accessor (Suc n) e w guild_id owner_id =
     repeat_accessor n e (snd (get_guild_state e w guild_id owner_id)) guild_id owner_id"

definition world_bot_target :: world where
  "world_bot_target =
     \<lparr>state = [''1'' \<mapsto> \<lparr>adminIDs = [2], targetIDs = [7], message = ''Hello''\<rparr>],
      pending_confirmations = Map.empty, nwrites = 0, nclock = 0, io_log = []\<rparr>"

definition world_two_admins :: world where
  "world_two_admins =
     \<lparr>state = [''1'' \<mapsto> \<lparr>adminIDs = [5, 7], targetIDs = [8], message = []\<rparr>],
      pending_confirmations = Map.empty, nwrites = 0, nclock = 0, io_log = []\<rparr>"

section \<open>Basic facts\<close>

lemma py_str_1: "py_str 1 = ''1''"
  by (simp add: py_str_def str_nat.simps digit_char_def)

lemmas model_defs = admin_command_def target_command_def setmessage_command_def on_message_def
  is_admin_def is_target_def get_guild_state_def save_and_report_def store_guild_def
  check_confirmation_def request_confirmation_def clear_confirmation_def now_timestamp_def
  conf_key_def save_state_def save_loop.simps MAX_SAVE_RETRIES_def Let_def
  admins_of_def targets_of_def message_of_def

lemma save_failure_text:
  "save_failure (Some x) = IOError (''Failed to save state after 3 attempts: '' @ exn_text x)"
  by (simp add: save_failure_def MAX_SAVE_RETRIES_def str_nat.simps digit_char_def)

lemma save_state_ok1:
  "fs e (nwrites w) = WriteOk \<Longrightarrow>
   save_state e w = (Inr (), w\<lparr>nwrites := nwrites w + 1, io_log := io_log w @ [Write (state w) WriteOk]\<rparr>)"
  by (simp add: save_state_def save_loop.simps MAX_SAVE_RETRIES_def Let_def)

lemma save_state_ok2:
  "fs e (nwrites w) = WriteRaises x1 \<Longrightarrow> fs e (nwrites w + 1) = WriteOk \<Longrightarrow>
   save_state e w = (Inr (), w\<lparr>nwrites := nwrites w + 2,
      io_log := io_log w @ [Write (state w) (WriteRaises x1), Sleep RETRY_DELAY, Write (state w) WriteOk]\<rparr>)"
  by (simp add: save_state_def save_loop.simps MAX_SAVE_RETRIES_def Let_def)

lemma save_state_ok3:
  "fs e (nwrites w) = WriteRaises x1 \<Longrightarrow> fs e (nwrites w + 1) = WriteRaises x2 \<Longrightarrow> fs e (nwrites w + 2) = WriteOk \<Longrightarrow>
   save_state e w = (Inr (), w\<lparr>nwrites := nwrites w + 3,
      io_log := io_log w @ [Write (state w) (WriteRaises x1), Sleep RETRY_DELAY,
                            Write (state w) (WriteRaises x2), Sleep RETRY_DELAY, Write (state w) WriteOk]\<rparr>)"
  by (simp add: save_state_def save_loop.simps MAX_SAVE_RETRIES_def Let_def)

lemma save_state_fail:
  "fs e (nwrites w) = WriteRaises x1 \<Longrightarrow> fs e (nwrites w + 1) = WriteRaises x2 \<Longrightarrow> fs e (nwrites w + 2) = WriteRaises x3 \<Longrightarrow>
   save_state e w = (Inl (save_failure (Some x3)), w\<lparr>nwrites := nwrites w + 3,
      io_log := io_log w @ [Write (state w) (WriteRaises x1), Sleep RETRY_DELAY,
                            Write (state w) (WriteRaises x2), Sleep RETRY_DELAY, Write (state w) (WriteRaises x3)]\<rparr>)"
  by (simp add: save_state_def save_loop.simps MAX_SAVE_RETRIES_def Let_def)

lemma save_state_state [simp]: "state (snd (save_state e w)) = state w"
  by (cases "fs e (nwrites w)"; cases "fs e (nwrites w + 1)"; cases "fs e (nwrites w + 2)")
     (simp_all add: save_state_ok1 save_state_ok2 save_state_ok3 save_state_fail)

lemma save_state_pending [simp]: "pending_confirmations (snd (save_state e w)) = pending_confirmations w"
  by (cases "fs e (nwrites w)"; cases "fs e (nwrites w + 1)"; cases "fs e (nwrites w + 2)")
     (simp_all add: save_state_ok1 save_state_ok2 save_state_ok3 save_state_fail)

lemma save_state_nclock [simp]: "nclock (snd (save_state e w)) = nclock w"
  by (cases "fs e (nwrites w)"; cases "fs e (nwrites w + 1)"; cases "fs e (nwrites w + 2)")
     (simp_all add: save_state_ok1 save_state_ok2 save_state_ok3 save_state_fail)


lemma admins_of_save [simp]: "admins_of (snd (save_state e w)) g = admins_of w g"
  by (simp add: admins_of_def)

lemma targets_of_save [simp]: "targets_of (snd (save_state e w)) g = targets_of w g"
  by (simp add: targets_of_def)

lemma message_of_save [simp]: "message_of (snd (save_state e w)) g = message_of w g"
  by (simp add: message_of_def)

lemma ggs_stored:
  "get_guild_state e w g ow = (gs, w') \<Longrightarrow> state w' (py_str g) = Some gs"
  by (auto simp: get_guild_state_def Let_def split: option.splits if_splits)

lemma ggs_pending:
  "get_guild_state e w g ow = (gs, w') \<Longrightarrow> pending_confirmations w' = pending_confirmations w"
  by (auto simp: get_guild_state_def Let_def split: option.splits if_splits)

lemma ggs_nclock:
  "get_guild_state e w g ow = (gs, w') \<Longrightarrow> nclock w' = nclock w"
  by (auto simp: get_guild_state_def Let_def split: option.splits if_splits)

lemma ggs_admins:
  "get_guild_state e w g oo = (gs, w') \<Longrightarrow>
   adminIDs gs = (case oo of None \<Rightarrow> admins_of w g
                  | Some ow \<Rightarrow> if ow \<in> set (admins_of w g) then admins_of w g else admins_of w g @ [ow])"
  by (auto simp: get_guild_state_def admins_of_def Let_def split: option.splits if_splits)

lemma ggs_targets:
  "get_guild_state e w g ow = (gs, w') \<Longrightarrow> targetIDs gs = targets_of w g"
  by (auto simp: get_guild_state_def targets_of_def Let_def split: option.splits if_splits)

lemma ggs_message:
  "get_guild_state e w g ow = (gs, w') \<Longrightarrow> message gs = message_of w g"
  by (auto simp: get_guild_state_def message_of_def Let_def split: option.splits if_splits)

lemma ggs_again_owner:
  "get_guild_state e w g (Some ow) = (gs, w') \<Longrightarrow> get_guild_state e w' g (Some ow) = (gs, w')"
  by (auto simp: get_guild_state_def Let_def split: option.splits if_splits)


lemma ggs_admins_of:
  "get_guild_state e w g oo = (gs, w') \<Longrightarrow> admins_of w' g = adminIDs gs"
  by (simp add: admins_of_def ggs_stored)

lemma ggs_targets_of:
  "get_guild_state e w g oo = (gs, w') \<Longrightarrow> targets_of w' g = targets_of w g"
  using ggs_targets[of e w g oo gs w'] by (simp add: targets_of_def ggs_stored)

lemma ggs_message_of:
  "get_guild_state e w g oo = (gs, w') \<Longrightarrow> message_of w' g = message_of w g"
  using ggs_message[of e w g oo gs w'] by (simp add: message_of_def ggs_stored)

lemma is_admin_allowed:
  "is_admin e w g u ow = (b, w') \<Longrightarrow> b = (u = ow \<or> u \<in> set (admins_of w g))"
  by (auto simp: is_admin_def split: if_splits prod.splits dest!: ggs_admins)

lemma is_admin_admins:
  "admins_of w' g = (if u = ow \<or> ow \<in> set (admins_of w g) then admins_of w g else admins_of w g @ [ow])"
  if "is_admin e w g u ow = (b, w')"
proof (cases "u = ow")
  case True
  then show ?thesis using that by (simp add: is_admin_def)
next
  case False
  obtain gs w1 where g: "get_guild_state e w g (Some ow) = (gs, w1)"
    by (cases "get_guild_state e w g (Some ow)")
  from False that g have "w' = w1" by (simp add: is_admin_def)
  with False ggs_admins[OF g] ggs_admins_of[OF g] show ?thesis by simp
qed

lemma is_admin_targets:
  "is_admin e w g u ow = (b, w') \<Longrightarrow> targets_of w' g = targets_of w g"
  by (auto simp: is_admin_def split: if_splits prod.splits dest: ggs_targets_of)

lemma is_admin_message:
  "is_admin e w g u ow = (b, w') \<Longrightarrow> message_of w' g = message_of w g"
  by (auto simp: is_admin_def split: if_splits prod.splits dest: ggs_message_of)

lemma is_admin_pending:
  "is_admin e w g u ow = (b, w') \<Longrightarrow> pending_confirmations w' = pending_confirmations w"
  by (auto simp: is_admin_def split: if_splits prod.splits dest: ggs_pending)

lemma is_admin_nclock:
  "is_admin e w g u ow = (b, w') \<Longrightarrow> nclock w' = nclock w"
  by (auto simp: is_admin_def split: if_splits prod.splits dest: ggs_nclock)

lemma is_admin_owner: "is_admin e w g ow ow = (True, w)"
  by (simp add: is_admin_def)

lemma conf_key_1_5: "conf_key 1 5 = ''1_5''"
  by (simp add: conf_key_def py_str_def str_nat.simps digit_char_def)

lemma sar_snd: "snd (save_and_report e w ok) = snd (save_state e w)"
proof (cases "save_state e w")
  case (Pair r w')
  then show ?thesis by (cases r) (simp_all add: save_and_report_def)
qed

lemma sar_response:
  "fst (save_and_report e w ok) = (case fst (save_state e w) of Inr u \<Rightarrow> ok | Inl x \<Rightarrow> SaveFailed)"
proof (cases "save_state e w")
  case (Pair r w')
  then show ?thesis by (cases r) (simp_all add: save_and_report_def)
qed

lemma sar_state [simp]: "state (snd (save_and_report e w ok)) = state w"
  by (simp add: sar_snd)

lemma sar_pending [simp]:
  "pending_confirmations (snd (save_and_report e w ok)) = pending_confirmations w"
  by (simp add: sar_snd)

lemma sar_nclock [simp]: "nclock (snd (save_and_report e w ok)) = nclock w"
  by (simp add: sar_snd)

lemma admins_of_sar [simp]: "admins_of (snd (save_and_report e w ok)) g = admins_of w g"
  by (simp add: admins_of_def)

lemma targets_of_sar [simp]: "targets_of (snd (save_and_report e w ok)) g = targets_of w g"
  by (simp add: targets_of_def)

lemma message_of_sar [simp]: "message_of (snd (save_and_report e w ok)) g = message_of w g"
  by (simp add: message_of_def)

lemma admins_of_store [simp]: "admins_of (store_guild w g gs) g = adminIDs gs"
  by (simp add: admins_of_def store_guild_def)

lemma targets_of_store [simp]: "targets_of (store_guild w g gs) g = targetIDs gs"
  by (simp add: targets_of_def store_guild_def)

lemma message_of_store [simp]: "message_of (store_guild w g gs) g = message gs"
  by (simp add: message_of_def store_guild_def)

lemma store_guild_pending [simp]:
  "pending_confirmations (store_guild w g gs) = pending_confirmations w"
  by (simp add: store_guild_def)

lemma accessor_admins:
  "admins_of (snd (get_guild_state e w g (Some ow))) g =
     (if ow \<in> set (admins_of w g) then admins_of w g else admins_of w g @ [ow])"
proof -
  obtain gs w' where g: "get_guild_state e w g (Some ow) = (gs, w')"
    by (cases "get_guild_state e w g (Some ow)")
  show ?thesis using ggs_admins[OF g] ggs_admins_of[OF g] by (simp add: g)
qed

lemma accessor_targets:
  "targets_of (snd (get_guild_state e w g oo)) g = targets_of w g"
  using ggs_targets_of[of e w g oo] by (cases "get_guild_state e w g oo") simp

lemma repeat_accessor_admins:
  "admins_of (repeat_accessor (Suc n) e w g (Some ow)) g =
     (if ow \<in> set (admins_of w g) then admins_of w g else admins_of w g @ [ow])"
proof (induction n arbitrary: w)
  case 0
  show ?case by (simp add: accessor_admins)
next
  case (Suc n)
  have "admins_of (repeat_accessor (Suc (Suc n)) e w g (Some ow)) g =
        admins_of (repeat_accessor (Suc n) e (snd (get_guild_state e w g (Some ow))) g (Some ow)) g"
    by simp
  also have "\<dots> = (if ow \<in> set (admins_of w g) then admins_of w g else admins_of w g @ [ow])"
    unfolding Suc.IH by (simp add: accessor_admins)
  finally show ?case .
qed

lemma repeat_accessor_targets:
  "targets_of (repeat_accessor n e w g oo) g = targets_of w g"
  by (induction n arbitrary: w) (simp_all add: accessor_targets)

lemma clear_confirmation_state [simp]: "state (clear_confirmation w g u) = state w"
  by (simp add: clear_confirmation_def Let_def)

lemma request_confirmation_state [simp]: "state (request_confirmation e w g u) = state w"
  by (simp add: request_confirmation_def now_timestamp_def Let_def)

lemma check_confirmation_state [simp]: "state (snd (check_confirmation e w g u)) = state w"
  by (simp add: check_confirmation_def now_timestamp_def Let_def split: option.splits)

lemma admin_command_by_owner:
  assumes "i_user_id ia = i_owner_id ia"
    and "get_guild_state e w (i_guild_id ia) None = (gs, w2)"
  shows "admin_command e w ia act usr =
     (case act of
        Add \<Rightarrow>
          if u_bot usr then (CannotAddBotAdmin, w2)
          else if u_id usr \<in> set (adminIDs gs) \<or> u_id usr = i_owner_id ia
          then (AlreadyAdmin (u_id usr), w2)
          else save_and_report e
                 (store_guild w2 (i_guild_id ia) (gs\<lparr>adminIDs := adminIDs gs @ [u_id usr]\<rparr>))
                 (AddedAdmin (u_id usr))
      | Remove \<Rightarrow>
          if u_id usr = i_owner_id ia then (CannotRemoveOwner, w2)
          else if u_id usr \<notin> set (adminIDs gs) then (NotAnAdmin (u_id usr), w2)
          else save_and_report e
                 (store_guild w2 (i_guild_id ia) (gs\<lparr>adminIDs := remove1 (u_id usr) (adminIDs gs)\<rparr>))
                 (RemovedAdmin (u_id usr)))"
  using assms by (simp add: admin_command_def is_admin_owner Let_def split: action.splits)

lemma on_message_in_guild:
  assumes "m_author_id msg \<noteq> client_user e" and "m_guild msg = Some g"
    and "get_guild_state e w (g_id g) (Some (g_owner_id g)) = (gs, w1)"
  shows "on_message e w msg =
     (if m_author_id msg \<in> set (targetIDs gs) \<and> message gs \<noteq> []
      then (Some (message gs), w1) else (None, w1))"
  using assms ggs_again_owner[OF assms(3)]
  by (simp add: on_message_def is_target_def Let_def)

lemma admin_command_run:
  assumes "is_admin e w (i_guild_id ia) (i_user_id ia) (i_owner_id ia) = (b, w1)"
    and "get_guild_state e w1 (i_guild_id ia) None = (gs, w2)"
  shows "admin_command e w ia act usr =
     (if \<not> b then (NoPermission, w1)
      else case act of
        Add \<Rightarrow>
          if u_bot usr then (CannotAddBotAdmin, w2)
          else if u_id usr \<in> set (adminIDs gs) \<or> u_id usr = i_owner_id ia
          then (AlreadyAdmin (u_id usr), w2)
          else save_and_report e
                 (store_guild w2 (i_guild_id ia) (gs\<lparr>adminIDs := adminIDs gs @ [u_id usr]\<rparr>))
                 (AddedAdmin (u_id usr))
      | Remove \<Rightarrow>
          if u_id usr = i_owner_id ia then (CannotRemoveOwner, w2)
          else if u_id usr \<notin> set (adminIDs gs) then (NotAnAdmin (u_id usr), w2)
          else if u_id usr = i_user_id ia then
            (if fst (check_confirmation e w2 (i_guild_id ia) (i_user_id ia)) then
               save_and_report e
                 (clear_confirmation
                    (store_guild (snd (check_confirmation e w2 (i_guild_id ia) (i_user_id ia)))
                       (i_guild_id ia) (gs\<lparr>adminIDs := remove1 (u_id usr) (adminIDs gs)\<rparr>))
                    (i_guild_id ia) (i_user_id ia))
                 SelfRemoved
             else (ConfirmPrompt,
                   request_confirmation e (snd (check_confirmation e w2 (i_guild_id ia) (i_user_id ia)))
                     (i_guild_id ia) (i_user_id ia)))
          else save_and_report e
                 (store_guild w2 (i_guild_id ia) (gs\<lparr>adminIDs := remove1 (u_id usr) (adminIDs gs)\<rparr>))
                 (RemovedAdmin (u_id usr)))"
  using assms by (cases act) (simp_all add: admin_command_def Let_def split_beta)

text \<open>What the authorization check and the accessor of the admin command leave behind.\<close>

lemma admin_command_entry:
  assumes a: "is_admin e w g ex ow = (b, w1)"
    and s: "get_guild_state e w1 g None = (gs, w2)"
  shows "adminIDs gs =
           (if ex = ow \<or> ow \<in> set (admins_of w g) then admins_of w g else admins_of w g @ [ow])"
    and "admins_of w2 g = adminIDs gs"
    and "targetIDs gs = targets_of w g"
    and "message gs = message_of w g"
    and "pending_confirmations w2 = pending_confirmations w"
    and "nclock w2 = nclock w"
    and "b = (ex = ow \<or> ex \<in> set (admins_of w g))"
  using ggs_admins[OF s] is_admin_admins[OF a] ggs_admins_of[OF s]
    ggs_targets[OF s] is_admin_targets[OF a] ggs_message[OF s] is_admin_message[OF a]
    ggs_pending[OF s] is_admin_pending[OF a] ggs_nclock[OF s] is_admin_nclock[OF a]
    is_admin_allowed[OF a]
  by simp_all

lemma clear_confirmation_pending:
  "pending_confirmations (clear_confirmation w g u) = (pending_confirmations w)(conf_key g u := None)"
  by (auto simp: clear_confirmation_def Let_def)

lemma clear_confirmation_nclock [simp]: "nclock (clear_confirmation w g u) = nclock w"
  by (simp add: clear_confirmation_def Let_def)

lemma store_guild_nclock [simp]: "nclock (store_guild w g gs) = nclock w"
  by (simp add: store_guild_def)

lemma request_confirmation_pending:
  "pending_confirmations (request_confirmation e w g u) =
     (pending_confirmations w)(conf_key g u \<mapsto> clock e (nclock w))"
  by (simp add: request_confirmation_def now_timestamp_def Let_def)

lemma request_confirmation_nclock: "nclock (request_confirmation e w g u) = nclock w + 1"
  by (simp add: request_confirmation_def now_timestamp_def Let_def)

lemma check_confirmation_valid:
  "pending_confirmations w (conf_key g u) = Some t \<Longrightarrow> clock e (nclock w) - t \<le> 60 \<Longrightarrow>
   check_confirmation e w g u = (True, w\<lparr>nclock := nclock w + 1\<rparr>)"
  by (simp add: check_confirmation_def now_timestamp_def Let_def)

lemma check_confirmation_expired:
  "pending_confirmations w (conf_key g u) = Some t \<Longrightarrow> 60 < clock e (nclock w) - t \<Longrightarrow>
   check_confirmation e w g u =
     (False, w\<lparr>nclock := nclock w + 1,
               pending_confirmations := (pending_confirmations w)(conf_key g u := None)\<rparr>)"
  by (simp add: check_confirmation_def now_timestamp_def Let_def)

lemma check_confirmation_absent:
  "pending_confirmations w (conf_key g u) = None \<Longrightarrow> check_confirmation e w g u = (False, w)"
  by (simp add: check_confirmation_def)

lemma admins_of_confirmations [simp]:
  "admins_of (clear_confirmation w g u) g' = admins_of w g'"
  "admins_of (request_confirmation e w g u) g' = admins_of w g'"
  "admins_of (snd (check_confirmation e w g u)) g' = admins_of w g'"
  by (simp_all add: admins_of_def)

lemma targets_of_confirmations [simp]:
  "targets_of (clear_confirmation w g u) g' = targets_of w g'"
  "targets_of (request_confirmation e w g u) g' = targets_of w g'"
  "targets_of (snd (check_confirmation e w g u)) g' = targets_of w g'"
  by (simp_all add: targets_of_def)

lemma self_demotion_first:
  assumes self: "u_id usr = i_user_id ia"
    and notowner: "i_user_id ia \<noteq> i_owner_id ia"
    and member: "i_user_id ia \<in> set (admins_of w (i_guild_id ia))"
    and novalid: "\<forall>t. pending_confirmations w (conf_key (i_guild_id ia) (i_user_id ia)) = Some t
                    \<longrightarrow> 60 < clock e (nclock w) - t"
  shows "fst (admin_command e w ia Remove usr) = ConfirmPrompt"
    and "admins_of (snd (admin_command e w ia Remove usr)) (i_guild_id ia) =
           (if i_owner_id ia \<in> set (admins_of w (i_guild_id ia)) then admins_of w (i_guild_id ia)
            else admins_of w (i_guild_id ia) @ [i_owner_id ia])"
    and "pending_confirmations (snd (admin_command e w ia Remove usr))
           (conf_key (i_guild_id ia) (i_user_id ia)) =
         Some (clock e (case pending_confirmations w (conf_key (i_guild_id ia) (i_user_id ia)) of
                          None \<Rightarrow> nclock w | Some t \<Rightarrow> nclock w + 1))"
    and "nclock (snd (admin_command e w ia Remove usr)) =
         (case pending_confirmations w (conf_key (i_guild_id ia) (i_user_id ia)) of
            None \<Rightarrow> nclock w + 1 | Some t \<Rightarrow> nclock w + 2)"
proof -
  obtain b w1 where a: "is_admin e w (i_guild_id ia) (i_user_id ia) (i_owner_id ia) = (b, w1)"
    by (cases "is_admin e w (i_guild_id ia) (i_user_id ia) (i_owner_id ia)")
  obtain gs w2 where s: "get_guild_state e w1 (i_guild_id ia) None = (gs, w2)"
    by (cases "get_guild_state e w1 (i_guild_id ia) None")
  note ent = admin_command_entry[OF a s]
  have b: b using ent(7) member by simp
  have mem: "u_id usr \<in> set (adminIDs gs)" using ent(1) member self notowner by simp
  let ?k = "conf_key (i_guild_id ia) (i_user_id ia)"
  let ?c = "check_confirmation e w2 (i_guild_id ia) (i_user_id ia)"
  have cmd: "admin_command e w ia Remove usr =
      (if fst ?c then
         save_and_report e
           (clear_confirmation
              (store_guild (snd ?c) (i_guild_id ia) (gs\<lparr>adminIDs := remove1 (u_id usr) (adminIDs gs)\<rparr>))
              (i_guild_id ia) (i_user_id ia))
           SelfRemoved
       else (ConfirmPrompt, request_confirmation e (snd ?c) (i_guild_id ia) (i_user_id ia)))"
    using b mem self notowner by (simp add: admin_command_run[OF a s])
  have chk: "?c = (case pending_confirmations w ?k of
                     None \<Rightarrow> (False, w2)
                   | Some t \<Rightarrow> (False, w2\<lparr>nclock := nclock w2 + 1,
                         pending_confirmations := (pending_confirmations w2)(?k := None)\<rparr>))"
  proof (cases "pending_confirmations w ?k")
    case None
    then show ?thesis using check_confirmation_absent[of w2 "i_guild_id ia" "i_user_id ia" e] ent(5)
      by simp
  next
    case (Some t)
    then have "60 < clock e (nclock w2) - t" using novalid ent(6) by simp
    then show ?thesis
      using Some check_confirmation_expired[of w2 "i_guild_id ia" "i_user_id ia" t e] ent(5)
      by simp
  qed
  have nof: "\<not> fst ?c" by (simp add: chk split: option.splits)
  have res: "admin_command e w ia Remove usr =
      (ConfirmPrompt, request_confirmation e (snd ?c) (i_guild_id ia) (i_user_id ia))"
    using nof by (simp add: cmd)
  show "fst (admin_command e w ia Remove usr) = ConfirmPrompt" by (simp add: res)
  have "admins_of (snd (admin_command e w ia Remove usr)) (i_guild_id ia) = admins_of w2 (i_guild_id ia)"
    by (simp add: res)
  then show "admins_of (snd (admin_command e w ia Remove usr)) (i_guild_id ia) =
           (if i_owner_id ia \<in> set (admins_of w (i_guild_id ia)) then admins_of w (i_guild_id ia)
            else admins_of w (i_guild_id ia) @ [i_owner_id ia])"
    using ent(1,2) notowner by simp
  show "pending_confirmations (snd (admin_command e w ia Remove usr)) ?k =
         Some (clock e (case pending_confirmations w ?k of
                          None \<Rightarrow> nclock w | Some t \<Rightarrow> nclock w + 1))"
    using ent(6) by (simp add: res request_confirmation_pending chk split: option.splits)
  show "nclock (snd (admin_command e w ia Remove usr)) =
         (case pending_confirmations w ?k of None \<Rightarrow> nclock w + 1 | Some t \<Rightarrow> nclock w + 2)"
    using ent(6) by (simp add: res request_confirmation_nclock chk split: option.splits)
qed

lemma self_demotion_confirm:
  assumes self: "u_id usr = i_user_id ia"
    and notowner: "i_user_id ia \<noteq> i_owner_id ia"
    and member: "i_user_id ia \<in> set (admins_of w (i_guild_id ia))"
    and pend: "pending_confirmations w (conf_key (i_guild_id ia) (i_user_id ia)) = Some t"
    and win: "clock e (nclock w) - t \<le> 60"
  shows "fst (admin_command e w ia Remove usr) \<in> {SelfRemoved, SaveFailed}"
    and "admins_of (snd (admin_command e w ia Remove usr)) (i_guild_id ia) =
           remove1 (i_user_id ia)
             (if i_owner_id ia \<in> set (admins_of w (i_guild_id ia)) then admins_of w (i_guild_id ia)
              else admins_of w (i_guild_id ia) @ [i_owner_id ia])"
    and "pending_confirmations (snd (admin_command e w ia Remove usr)) =
           (pending_confirmations w)(conf_key (i_guild_id ia) (i_user_id ia) := None)"
proof -
  obtain b w1 where a: "is_admin e w (i_guild_id ia) (i_user_id ia) (i_owner_id ia) = (b, w1)"
    by (cases "is_admin e w (i_guild_id ia) (i_user_id ia) (i_owner_id ia)")
  obtain gs w2 where s: "get_guild_state e w1 (i_guild_id ia) None = (gs, w2)"
    by (cases "get_guild_state e w1 (i_guild_id ia) None")
  note ent = admin_command_entry[OF a s]
  have b: b using ent(7) member by simp
  have mem: "u_id usr \<in> set (adminIDs gs)" using ent(1) member self notowner by simp
  let ?c = "check_confirmation e w2 (i_guild_id ia) (i_user_id ia)"
  have chk: "?c = (True, w2\<lparr>nclock := nclock w2 + 1\<rparr>)"
    using check_confirmation_valid[of w2 "i_guild_id ia" "i_user_id ia" t e] pend win ent(5,6)
    by simp
  have res: "admin_command e w ia Remove usr =
      save_and_report e
        (clear_confirmation
           (store_guild (w2\<lparr>nclock := nclock w2 + 1\<rparr>) (i_guild_id ia)
              (gs\<lparr>adminIDs := remove1 (u_id usr) (adminIDs gs)\<rparr>))
           (i_guild_id ia) (i_user_id ia))
        SelfRemoved"
    using b mem self notowner by (simp add: admin_command_run[OF a s] chk)
  show "fst (admin_command e w ia Remove usr) \<in> {SelfRemoved, SaveFailed}"
    by (simp add: res sar_response split: sum.splits)
  show "admins_of (snd (admin_command e w ia Remove usr)) (i_guild_id ia) =
           remove1 (i_user_id ia)
             (if i_owner_id ia \<in> set (admins_of w (i_guild_id ia)) then admins_of w (i_guild_id ia)
              else admins_of w (i_guild_id ia) @ [i_owner_id ia])"
    using ent(1) notowner self by (simp add: res)
  show "pending_confirmations (snd (admin_command e w ia Remove usr)) =
           (pending_confirmations w)(conf_key (i_guild_id ia) (i_user_id ia) := None)"
    using ent(5) by (simp add: res clear_confirmation_pending)
qed

lemma remove_other_admin:
  assumes other: "u_id usr \<noteq> i_user_id ia"
    and notowner: "u_id usr \<noteq> i_owner_id ia"
    and member: "u_id usr \<in> set (admins_of w (i_guild_id ia))"
    and auth: "i_user_id ia = i_owner_id ia \<or> i_user_id ia \<in> set (admins_of w (i_guild_id ia))"
  shows "fst (admin_command e w ia Remove usr) \<in> {RemovedAdmin (u_id usr), SaveFailed}"
    and "admins_of (snd (admin_command e w ia Remove usr)) (i_guild_id ia) =
           remove1 (u_id usr)
             (if i_user_id ia = i_owner_id ia \<or> i_owner_id ia \<in> set (admins_of w (i_guild_id ia))
              then admins_of w (i_guild_id ia)
              else admins_of w (i_guild_id ia) @ [i_owner_id ia])"
    and "pending_confirmations (snd (admin_command e w ia Remove usr)) = pending_confirmations w"
    and "nclock (snd (admin_command e w ia Remove usr)) = nclock w"
proof -
  obtain b w1 where a: "is_admin e w (i_guild_id ia) (i_user_id ia) (i_owner_id ia) = (b, w1)"
    by (cases "is_admin e w (i_guild_id ia) (i_user_id ia) (i_owner_id ia)")
  obtain gs w2 where s: "get_guild_state e w1 (i_guild_id ia) None = (gs, w2)"
    by (cases "get_guild_state e w1 (i_guild_id ia) None")
  note ent = admin_command_entry[OF a s]
  have b: b using ent(7) auth by simp
  have mem: "u_id usr \<in> set (adminIDs gs)" using ent(1) member by simp
  have res: "admin_command e w ia Remove usr =
      save_and_report e
        (store_guild w2 (i_guild_id ia) (gs\<lparr>adminIDs := remove1 (u_id usr) (adminIDs gs)\<rparr>))
        (RemovedAdmin (u_id usr))"
    using b mem other notowner by (simp add: admin_command_run[OF a s])
  show "fst (admin_command e w ia Remove usr) \<in> {RemovedAdmin (u_id usr), SaveFailed}"
    by (simp add: res sar_response split: sum.splits)
  show "admins_of (snd (admin_command e w ia Remove usr)) (i_guild_id ia) =
           remove1 (u_id usr)
             (if i_user_id ia = i_owner_id ia \<or> i_owner_id ia \<in> set (admins_of w (i_guild_id ia))
              then admins_of w (i_guild_id ia)
              else admins_of w (i_guild_id ia) @ [i_owner_id ia])"
    using ent(1) by (simp add: res)
  show "pending_confirmations (snd (admin_command e w ia Remove usr)) = pending_confirmations w"
    using ent(5) by (simp add: res)
  show "nclock (snd (admin_command e w ia Remove usr)) = nclock w"
    using ent(6) by (simp add: res)
qed

lemma target_command_run:
  assumes "is_admin e w (i_guild_id ia) (i_user_id ia) (i_owner_id ia) = (b, w1)"
    and "get_guild_state e w1 (i_guild_id ia) (Some (i_owner_id ia)) = (gs, w2)"
  shows "target_command e w ia act usr =
     (if \<not> b then (NoPermission, w1)
      else case act of
        Add \<Rightarrow>
          if u_bot usr then (CannotAddBotTarget, w2)
          else if u_id usr \<in> set (targetIDs gs) then (AlreadyTarget (u_id usr), w2)
          else save_and_report e
                 (store_guild w2 (i_guild_id ia) (gs\<lparr>targetIDs := targetIDs gs @ [u_id usr]\<rparr>))
                 (AddedTarget (u_id usr))
      | Remove \<Rightarrow>
          if u_id usr \<notin> set (targetIDs gs) then (NotATarget (u_id usr), w2)
          else save_and_report e
                 (store_guild w2 (i_guild_id ia) (gs\<lparr>targetIDs := remove1 (u_id usr) (targetIDs gs)\<rparr>))
                 (RemovedTarget (u_id usr)))"
  using assms by (cases act) (simp_all add: target_command_def Let_def)

lemma setmessage_command_run:
  assumes "is_admin e w (i_guild_id ia) (i_user_id ia) (i_owner_id ia) = (b, w1)"
    and "get_guild_state e w1 (i_guild_id ia) (Some (i_owner_id ia)) = (gs, w2)"
  shows "setmessage_command e w ia text =
     (if \<not> b then (NoPermission, w1)
      else save_and_report e (store_guild w2 (i_guild_id ia) (gs\<lparr>message := text\<rparr>))
             (MessageSet text))"
  using assms by (simp add: setmessage_command_def Let_def)

text \<open>What the authorization check and the accessor of the other commands leave behind.\<close>

lemma owner_command_entry:
  assumes a: "is_admin e w g ex ow = (b, w1)"
    and s: "get_guild_state e w1 g (Some ow) = (gs, w2)"
  shows "adminIDs gs =
           (if ow \<in> set (admins_of w g) then admins_of w g else admins_of w g @ [ow])"
    and "targetIDs gs = targets_of w g"
    and "message gs = message_of w g"
    and "pending_confirmations w2 = pending_confirmations w"
    and "nclock w2 = nclock w"
    and "b = (ex = ow \<or> ex \<in> set (admins_of w g))"
  using ggs_admins[OF s] is_admin_admins[OF a]
    ggs_targets[OF s] is_admin_targets[OF a] ggs_message[OF s] is_admin_message[OF a]
    ggs_pending[OF s] is_admin_pending[OF a] ggs_nclock[OF s] is_admin_nclock[OF a]
    is_admin_allowed[OF a]
  by (simp_all split: if_splits)

lemma nodup_save [simp]: "no_duplicates (snd (save_state e w)) = no_duplicates w"
  by (simp add: no_duplicates_def)

lemma nodup_report [simp]: "no_duplicates (snd (save_and_report e w ok)) = no_duplicates w"
  by (simp add: no_duplicates_def)

lemma nodup_confirmations [simp]:
  "no_duplicates (clear_confirmation w g u) = no_duplicates w"
  "no_duplicates (request_confirmation e w g u) = no_duplicates w"
  "no_duplicates (snd (check_confirmation e w g u)) = no_duplicates w"
  by (simp_all add: no_duplicates_def)

lemma nodup_store:
  "no_duplicates w \<Longrightarrow> distinct (adminIDs gs) \<Longrightarrow> distinct (targetIDs gs) \<Longrightarrow>
   no_duplicates (store_guild w g gs)"
  by (simp add: no_duplicates_def store_guild_def)

lemma nodup_accessor:
  assumes "no_duplicates w" and "get_guild_state e w g oo = (gs, w')"
  shows "no_duplicates w'" and "distinct (adminIDs gs)" and "distinct (targetIDs gs)"
proof -
  show w': "no_duplicates w'"
  proof (cases "state w (py_str g)")
    case None
    then show ?thesis using assms
      by (auto simp: get_guild_state_def Let_def no_duplicates_def split: option.splits if_splits)
  next
    case (Some old)
    then have d: "distinct (adminIDs old)" "distinct (targetIDs old)"
      using assms(1) by (auto simp: no_duplicates_def)
    show ?thesis
    proof (cases "oo \<noteq> None \<and> the oo \<notin> set (adminIDs old)")
      case True
      then have "state w' = (state w)(py_str g \<mapsto> old\<lparr>adminIDs := adminIDs old @ [the oo]\<rparr>)"
        using assms(2) Some by (auto simp: get_guild_state_def Let_def)
      then show ?thesis using assms(1) d True by (auto simp: no_duplicates_def)
    next
      case False
      then have "w' = w" using assms(2) Some by (auto simp: get_guild_state_def Let_def)
      then show ?thesis using assms(1) by simp
    qed
  qed
  from ggs_stored[OF assms(2)] w'
  show "distinct (adminIDs gs)" and "distinct (targetIDs gs)"
    by (auto simp: no_duplicates_def)
qed

lemma nodup_is_admin:
  assumes "no_duplicates w" and "is_admin e w g u ow = (b, w')"
  shows "no_duplicates w'"
proof (cases "u = ow")
  case True
  then show ?thesis using assms by (simp add: is_admin_def)
next
  case False
  obtain gs w1 where s: "get_guild_state e w g (Some ow) = (gs, w1)"
    by (cases "get_guild_state e w g (Some ow)")
  with False assms(2) have "w' = w1" by (simp add: is_admin_def)
  then show ?thesis using nodup_accessor(1)[OF assms(1) s] by simp
qed

lemma nodup_admin_command:
  assumes "no_duplicates w"
  shows "no_duplicates (snd (admin_command e w ia act usr))"
proof -
  obtain b w1 where a: "is_admin e w (i_guild_id ia) (i_user_id ia) (i_owner_id ia) = (b, w1)"
    by (cases "is_admin e w (i_guild_id ia) (i_user_id ia) (i_owner_id ia)")
  obtain gs w2 where s: "get_guild_state e w1 (i_guild_id ia) None = (gs, w2)"
    by (cases "get_guild_state e w1 (i_guild_id ia) None")
  note w1 = nodup_is_admin[OF assms a]
  note acc = nodup_accessor[OF w1 s]
  have add: "no_duplicates (store_guild w' (i_guild_id ia) (gs\<lparr>adminIDs := adminIDs gs @ [u_id usr]\<rparr>))"
    if "u_id usr \<notin> set (adminIDs gs)" "no_duplicates w'" for w'
    using that acc by (intro nodup_store) simp_all
  have rem: "no_duplicates (store_guild w' (i_guild_id ia) (gs\<lparr>adminIDs := remove1 x (adminIDs gs)\<rparr>))"
    if "no_duplicates w'" for w' x
    using that acc by (intro nodup_store) simp_all
  show ?thesis
    using w1 acc(1) add rem
    by (cases act) (simp_all add: admin_command_run[OF a s])
qed

lemma nodup_target_command:
  assumes "no_duplicates w"
  shows "no_duplicates (snd (target_command e w ia act usr))"
proof -
  obtain b w1 where a: "is_admin e w (i_guild_id ia) (i_user_id ia) (i_owner_id ia) = (b, w1)"
    by (cases "is_admin e w (i_guild_id ia) (i_user_id ia) (i_owner_id ia)")
  obtain gs w2 where s: "get_guild_state e w1 (i_guild_id ia) (Some (i_owner_id ia)) = (gs, w2)"
    by (cases "get_guild_state e w1 (i_guild_id ia) (Some (i_owner_id ia))")
  note w1 = nodup_is_admin[OF assms a]
  note acc = nodup_accessor[OF w1 s]
  have add: "no_duplicates (store_guild w2 (i_guild_id ia) (gs\<lparr>targetIDs := targetIDs gs @ [u_id usr]\<rparr>))"
    if "u_id usr \<notin> set (targetIDs gs)"
    using that acc by (intro nodup_store) simp_all
  have rem: "no_duplicates (store_guild w2 (i_guild_id ia) (gs\<lparr>targetIDs := remove1 (u_id usr) (targetIDs gs)\<rparr>))"
    using acc by (intro nodup_store) simp_all
  show ?thesis
    using w1 acc(1) add rem
    by (cases act) (simp_all add: target_command_run[OF a s])
qed

lemma nodup_setmessage_command:
  assumes "no_duplicates w"
  shows "no_duplicates (snd (setmessage_command e w ia text))"
proof -
  obtain b w1 where a: "is_admin e w (i_guild_id ia) (i_user_id ia) (i_owner_id ia) = (b, w1)"
    by (cases "is_admin e w (i_guild_id ia) (i_user_id ia) (i_owner_id ia)")
  obtain gs w2 where s: "get_guild_state e w1 (i_guild_id ia) (Some (i_owner_id ia)) = (gs, w2)"
    by (cases "get_guild_state e w1 (i_guild_id ia) (Some (i_owner_id ia))")
  note w1 = nodup_is_admin[OF assms a]
  note acc = nodup_accessor[OF w1 s]
  have "no_duplicates (store_guild w2 (i_guild_id ia) (gs\<lparr>message := text\<rparr>))"
    using acc by (intro nodup_store) simp_all
  then show ?thesis
    using w1 by (simp add: setmessage_command_run[OF a s])
qed

lemma nodup_on_message:
  assumes "no_duplicates w"
  shows "no_duplicates (snd (on_message e w msg))"
proof (cases "m_author_id msg = client_user e \<or> m_guild msg = None")
  case True
  then show ?thesis using assms by (auto simp: on_message_def)
next
  case False
  then obtain g where g: "m_guild msg = Some g" and a: "m_author_id msg \<noteq> client_user e"
    by auto
  obtain gs w1 where s: "get_guild_state e w (g_id g) (Some (g_owner_id g)) = (gs, w1)"
    by (cases "get_guild_state e w (g_id g) (Some (g_owner_id g))")
  show ?thesis
    using nodup_accessor(1)[OF assms s] by (simp add: on_message_in_guild[OF a g s])
qed

lemma nodup_apply_op: "no_duplicates w \<Longrightarrow> no_duplicates (apply_op e w op)"
proof (cases op)
  case (AccessorOp g oo)
  assume "no_duplicates w"
  then show ?thesis
    using nodup_accessor(1)[of w e g oo] AccessorOp
    by (cases "get_guild_state e w g oo") simp
qed (simp_all add: nodup_admin_command nodup_target_command nodup_setmessage_command
      nodup_on_message)

lemma nodup_run_ops: "no_duplicates w \<Longrightarrow> no_duplicates (run_ops e w ops)"
  unfolding run_ops_def
  by (induction ops arbitrary: w) (simp_all add: nodup_apply_op)

lemma nodup_lists:
  "no_duplicates w \<Longrightarrow> distinct (admins_of w g) \<and> distinct (targets_of w g)"
  by (auto simp: no_duplicates_def admins_of_def targets_of_def split: option.splits)

lemma admin_add_rejected:
  assumes "u_id usr \<in> set (admins_of w (i_guild_id ia)) \<or> u_id usr = i_owner_id ia"
  shows "fst (admin_command e w ia Add usr) =
           (if \<not> (i_user_id ia = i_owner_id ia \<or> i_user_id ia \<in> set (admins_of w (i_guild_id ia)))
            then NoPermission
            else if u_bot usr then CannotAddBotAdmin else AlreadyAdmin (u_id usr))"
    and "admins_of (snd (admin_command e w ia Add usr)) (i_guild_id ia) =
           (if i_user_id ia = i_owner_id ia \<or> i_owner_id ia \<in> set (admins_of w (i_guild_id ia))
            then admins_of w (i_guild_id ia)
            else admins_of w (i_guild_id ia) @ [i_owner_id ia])"
proof -
  obtain b w1 where a: "is_admin e w (i_guild_id ia) (i_user_id ia) (i_owner_id ia) = (b, w1)"
    by (cases "is_admin e w (i_guild_id ia) (i_user_id ia) (i_owner_id ia)")
  obtain gs w2 where s: "get_guild_state e w1 (i_guild_id ia) None = (gs, w2)"
    by (cases "get_guild_state e w1 (i_guild_id ia) None")
  note ent = admin_command_entry[OF a s]
  have mem: "u_id usr \<in> set (adminIDs gs) \<or> u_id usr = i_owner_id ia"
    using assms ent(1) by auto
  have res: "admin_command e w ia Add usr =
      (if \<not> b then (NoPermission, w1)
       else if u_bot usr then (CannotAddBotAdmin, w2) else (AlreadyAdmin (u_id usr), w2))"
    using mem by (auto simp: admin_command_run[OF a s])
  show "fst (admin_command e w ia Add usr) =
           (if \<not> (i_user_id ia = i_owner_id ia \<or> i_user_id ia \<in> set (admins_of w (i_guild_id ia)))
            then NoPermission
            else if u_bot usr then CannotAddBotAdmin else AlreadyAdmin (u_id usr))"
    using ent(7) by (simp add: res)
  show "admins_of (snd (admin_command e w ia Add usr)) (i_guild_id ia) =
           (if i_user_id ia = i_owner_id ia \<or> i_owner_id ia \<in> set (admins_of w (i_guild_id ia))
            then admins_of w (i_guild_id ia)
            else admins_of w (i_guild_id ia) @ [i_owner_id ia])"
    using ent(1,2) is_admin_admins[OF a] by (simp add: res)
qed

lemma target_add_rejected:
  assumes "u_id usr \<in> set (targets_of w (i_guild_id ia))"
  shows "fst (target_command e w ia Add usr) =
           (if \<not> (i_user_id ia = i_owner_id ia \<or> i_user_id ia \<in> set (admins_of w (i_guild_id ia)))
            then NoPermission
            else if u_bot usr then CannotAddBotTarget else AlreadyTarget (u_id usr))"
    and "targets_of (snd (target_command e w ia Add usr)) (i_guild_id ia) =
           targets_of w (i_guild_id ia)"
proof -
  obtain b w1 where a: "is_admin e w (i_guild_id ia) (i_user_id ia) (i_owner_id ia) = (b, w1)"
    by (cases "is_admin e w (i_guild_id ia) (i_user_id ia) (i_owner_id ia)")
  obtain gs w2 where s: "get_guild_state e w1 (i_guild_id ia) (Some (i_owner_id ia)) = (gs, w2)"
    by (cases "get_guild_state e w1 (i_guild_id ia) (Some (i_owner_id ia))")
  note ent = owner_command_entry[OF a s]
  have res: "target_command e w ia Add usr =
      (if \<not> b then (NoPermission, w1)
       else if u_bot usr then (CannotAddBotTarget, w2) else (AlreadyTarget (u_id usr), w2))"
    using assms ent(2) by (simp add: target_command_run[OF a s])
  show "fst (target_command e w ia Add usr) =
           (if \<not> (i_user_id ia = i_owner_id ia \<or> i_user_id ia \<in> set (admins_of w (i_guild_id ia)))
            then NoPermission
            else if u_bot usr then CannotAddBotTarget else AlreadyTarget (u_id usr))"
    using ent(6) by (simp add: res)
  show "targets_of (snd (target_command e w ia Add usr)) (i_guild_id ia) =
           targets_of w (i_guild_id ia)"
    using is_admin_targets[OF a] ggs_targets_of[OF s] by (simp add: res)
qed

lemma sar_failed:
  "isl (fst (save_state e w)) \<Longrightarrow> save_and_report e w ok = (SaveFailed, snd (save_state e w))"
  by (cases "save_state e w"; cases "fst (save_state e w)") (auto simp: save_and_report_def)

section \<open>Owner supremacy\<close>

text \<open>
  C1 (as amended). The owner passes \<open>is_admin\<close> in every guild, with or without an
  entry for the guild, and the check leaves the world as it was. An admin-remove
  command whose target is the owner is rejected: with ``cannot remove the server
  owner'' when the actor is the owner or in the admin list, with ``no permission''
  otherwise. It removes no id from the admin list and leaves the pending
  confirmations alone. The admin list changes in one case only: when the actor is
  not the owner and the owner is missing from the list, the accessor called by the
  authorization check appends the owner.
\<close>

theorem owner_supremacy:
  assumes "u_id usr = i_owner_id ia"
  shows "is_admin e w g ow ow = (True, w)
     \<and> fst (admin_command e w ia Remove usr) =
         (if i_user_id ia = i_owner_id ia \<or> i_user_id ia \<in> set (admins_of w (i_guild_id ia))
          then CannotRemoveOwner else NoPermission)
     \<and> admins_of (snd (admin_command e w ia Remove usr)) (i_guild_id ia) =
         (if i_user_id ia = i_owner_id ia \<or> i_owner_id ia \<in> set (admins_of w (i_guild_id ia))
          then admins_of w (i_guild_id ia)
          else admins_of w (i_guild_id ia) @ [i_owner_id ia])
     \<and> pending_confirmations (snd (admin_command e w ia Remove usr)) = pending_confirmations w"
proof -
  obtain b w1 where a: "is_admin e w (i_guild_id ia) (i_user_id ia) (i_owner_id ia) = (b, w1)"
    by (cases "is_admin e w (i_guild_id ia) (i_user_id ia) (i_owner_id ia)")
  obtain gs w2 where g: "get_guild_state e w1 (i_guild_id ia) None = (gs, w2)"
    by (cases "get_guild_state e w1 (i_guild_id ia) None")
  have cmd: "admin_command e w ia Remove usr =
      (if b then (CannotRemoveOwner, w2) else (NoPermission, w1))"
    using assms by (simp add: admin_command_def a g Let_def)
  have w2: "admins_of w2 (i_guild_id ia) = admins_of w1 (i_guild_id ia)"
    using ggs_admins[OF g] ggs_admins_of[OF g] by simp
  show ?thesis
    using is_admin_allowed[OF a] is_admin_admins[OF a] is_admin_pending[OF a] ggs_pending[OF g] w2
    by (simp add: cmd is_admin_owner)
qed

theorem owner_supremacy_witness:
  "u_id \<lparr>u_id = 2, u_bot = False\<rparr> = i_owner_id \<lparr>i_guild_id = 1, i_user_id = 2, i_owner_id = 2\<rparr>
   \<and> is_admin healthy_env world_one_admin 7 2 2 = (True, world_one_admin)
   \<and> fst (admin_command healthy_env world_one_admin
             \<lparr>i_guild_id = 1, i_user_id = 2, i_owner_id = 2\<rparr> Remove \<lparr>u_id = 2, u_bot = False\<rparr>)
       = CannotRemoveOwner
   \<and> admins_of (snd (admin_command healthy_env world_one_admin
             \<lparr>i_guild_id = 1, i_user_id = 2, i_owner_id = 2\<rparr> Remove \<lparr>u_id = 2, u_bot = False\<rparr>)) 1
       = [5]"
  using owner_supremacy [of "\<lparr>u_id = 2, u_bot = False\<rparr>"
      "\<lparr>i_guild_id = 1, i_user_id = 2, i_owner_id = 2\<rparr>" healthy_env world_one_admin 7 2]
  by (simp add: admins_of_def world_one_admin_def py_str_1)

text \<open>
  The claim as written (no mutation of the admin list) fails: admin 5 asks to remove
  the owner 2 of guild 1, whose admin list is \<open>[5]\<close>. The command is rejected, and
  the list is \<open>[5, 2]\<close> afterwards. And the rejection is not always a validation
  failure: user 9, who is no admin, gets ``no permission''.
\<close>

theorem owner_removal_mutates_admins:
  "admins_of world_one_admin 1 = [5]
   \<and> fst (admin_command healthy_env world_one_admin
             \<lparr>i_guild_id = 1, i_user_id = 5, i_owner_id = 2\<rparr> Remove \<lparr>u_id = 2, u_bot = False\<rparr>)
       = CannotRemoveOwner
   \<and> admins_of (snd (admin_command healthy_env world_one_admin
             \<lparr>i_guild_id = 1, i_user_id = 5, i_owner_id = 2\<rparr> Remove \<lparr>u_id = 2, u_bot = False\<rparr>)) 1
       = [5, 2]
   \<and> fst (admin_command healthy_env world_one_admin
             \<lparr>i_guild_id = 1, i_user_id = 9, i_owner_id = 2\<rparr> Remove \<lparr>u_id = 2, u_bot = False\<rparr>)
       = NoPermission"
  by (simp add: model_defs healthy_env_def world_one_admin_def py_str_1)

section \<open>Saving with retries\<close>

text \<open>
  C7. \<open>save_state\<close> makes at most three write attempts and sleeps 0.5 seconds between
  two consecutive attempts. It returns at the first attempt that works, without a
  further attempt: after one, two or three attempts, with no, one or two sleeps. When
  all three attempts raise, it raises an \<^verbatim>\<open>IOError\<close> whose text carries the text of the
  last exception; there is no sleep after the third attempt. The log of the world
  records exactly these attempts and sleeps.
\<close>

theorem save_retry_semantics:
  "(fs e (nwrites w) = WriteOk \<longrightarrow>
      save_state e w =
        (Inr (), w\<lparr>nwrites := nwrites w + 1, io_log := io_log w @ [Write (state w) WriteOk]\<rparr>))
   \<and> (\<forall>x1. fs e (nwrites w) = WriteRaises x1 \<and> fs e (nwrites w + 1) = WriteOk \<longrightarrow>
      save_state e w =
        (Inr (), w\<lparr>nwrites := nwrites w + 2,
                    io_log := io_log w @ [Write (state w) (WriteRaises x1), Sleep 0.5,
                                          Write (state w) WriteOk]\<rparr>))
   \<and> (\<forall>x1 x2. fs e (nwrites w) = WriteRaises x1 \<and> fs e (nwrites w + 1) = WriteRaises x2
         \<and> fs e (nwrites w + 2) = WriteOk \<longrightarrow>
      save_state e w =
        (Inr (), w\<lparr>nwrites := nwrites w + 3,
                    io_log := io_log w @ [Write (state w) (WriteRaises x1), Sleep 0.5,
                                          Write (state w) (WriteRaises x2), Sleep 0.5,
                                          Write (state w) WriteOk]\<rparr>))
   \<and> (\<forall>x1 x2 x3. fs e (nwrites w) = WriteRaises x1 \<and> fs e (nwrites w + 1) = WriteRaises x2
         \<and> fs e (nwrites w + 2) = WriteRaises x3 \<longrightarrow>
      save_state e w =
        (Inl (IOError (''Failed to save state after 3 attempts: '' @ exn_text x3)),
         w\<lparr>nwrites := nwrites w + 3,
           io_log := io_log w @ [Write (state w) (WriteRaises x1), Sleep 0.5,
                                 Write (state w) (WriteRaises x2), Sleep 0.5,
                                 Write (state w) (WriteRaises x3)]\<rparr>))"
  by (simp add: save_state_ok1 save_state_ok2 save_state_ok3 save_state_fail
      save_failure_text RETRY_DELAY_def)

theorem save_retry_semantics_witness:
  "fs flaky_env (nwrites fresh_world) = WriteRaises (IOError ''disk full'')
   \<and> fs flaky_env (nwrites fresh_world + 1) = WriteOk
   \<and> fst (save_state flaky_env fresh_world) = Inr ()
   \<and> nwrites (snd (save_state flaky_env fresh_world)) = 2
   \<and> io_log (snd (save_state flaky_env fresh_world)) =
       [Write (state fresh_world) (WriteRaises (IOError ''disk full'')), Sleep 0.5,
        Write (state fresh_world) WriteOk]
   \<and> fst (save_state failing_env fresh_world) =
       Inl (IOError ''Failed to save state after 3 attempts: disk full'')
   \<and> nwrites (snd (save_state failing_env fresh_world)) = 3
   \<and> fst (save_state healthy_env fresh_world) = Inr ()
   \<and> nwrites (snd (save_state healthy_env fresh_world)) = 1"
  using save_retry_semantics [of flaky_env fresh_world]
        save_retry_semantics [of failing_env fresh_world]
        save_retry_semantics [of healthy_env fresh_world]
  by (simp add: flaky_env_def failing_env_def healthy_env_def fresh_world_def)

section \<open>Loading never fails\<close>

text \<open>
  C8. Whatever the backing store does, \<open>load_state\<close> returns a document and raises
  nothing: the empty document when the file is absent and when reading raises (an
  I/O error, malformed JSON, or any other exception), the parsed document when the
  file exists and parses.
\<close>

theorem load_never_fails:
  "load_state FileAbsent = Inr Map.empty
   \<and> load_state (ReadRaises x) = Inr Map.empty
   \<and> load_state (Parses d) = Inr d
   \<and> (\<exists>doc. load_state c = Inr doc)"
proof -
  have r: "load_state (ReadRaises y) = Inr Map.empty" for y
    by (cases y) (simp_all add: load_state_def load_state_body_def)
  have "\<exists>doc. load_state c = Inr doc"
    by (cases c) (simp_all add: r, simp_all add: load_state_def load_state_body_def)
  then show ?thesis
    by (simp add: r) (simp add: load_state_def load_state_body_def)
qed

section \<open>Checking a confirmation\<close>



section \<open>Self-healing is idempotent\<close>

text \<open>
  C5. Calling the accessor \<open>n\<close> times, \<open>n\<close> at least 1, with the same guild and the
  same owner, on a world in which the owner occurs at most once in the guild's admin
  list, gives an admin list in which the owner occurs exactly once. The list is the
  same as after a single call, whatever \<open>n\<close> is, and the old list is a prefix of it:
  no entry is removed. The target list is unchanged.
\<close>

theorem self_healing_idempotence:
  assumes "1 \<le> n" and "count_list (admins_of w g) ow \<le> 1"
  shows "count_list (admins_of (repeat_accessor n e w g (Some ow)) g) ow = 1
     \<and> prefix (admins_of w g) (admins_of (repeat_accessor n e w g (Some ow)) g)
     \<and> admins_of (repeat_accessor n e w g (Some ow)) g =
         admins_of (repeat_accessor 1 e w g (Some ow)) g
     \<and> targets_of (repeat_accessor n e w g (Some ow)) g = targets_of w g"
proof -
  from assms(1) obtain m where n: "n = Suc m" by (cases n) auto
  have c: "ow \<in> set (admins_of w g) \<Longrightarrow> count_list (admins_of w g) ow = 1"
    using assms(2) count_list_0_iff[of "admins_of w g" ow] by linarith
  have d: "ow \<notin> set (admins_of w g) \<Longrightarrow> count_list (admins_of w g) ow = 0"
    by (simp add: count_list_0_iff)
  show ?thesis
    unfolding n One_nat_def repeat_accessor_admins repeat_accessor_targets
    using c d by simp
qed

theorem self_healing_idempotence_witness:
  "(1::nat) \<le> 3 \<and> count_list (admins_of world_one_admin 1) 2 \<le> 1
   \<and> admins_of (repeat_accessor 3 healthy_env world_one_admin 1 (Some 2)) 1 = [5, 2]
   \<and> count_list (admins_of (repeat_accessor 3 healthy_env world_one_admin 1 (Some 2)) 1) 2 = 1"
proof -
  have a: "admins_of world_one_admin 1 = [5]"
    by (simp add: admins_of_def world_one_admin_def py_str_1)
  have b: "admins_of (snd (get_guild_state healthy_env world_one_admin 1 (Some 2))) 1 = [5, 2]"
    by (simp add: model_defs healthy_env_def world_one_admin_def py_str_1)
  have h: "(1::nat) \<le> 3" "count_list (admins_of world_one_admin 1) 2 \<le> 1"
    by (simp_all add: a)
  show ?thesis
    using self_healing_idempotence [OF h, of healthy_env] by (simp add: a b)
qed

section \<open>The admin command does not add the owner\<close>

text \<open>
  C10. \<open>admin_command\<close> asks for the guild's entry without the owner id. When the
  actor is the owner, the authorization check returns before touching the state, so:
  for a guild without an entry the accessor returns, and stores under the guild's
  key, the entry with the empty admin list; an owner who is not in the admin list is
  not in it after the command either, whatever the action and the target; and after
  the owner's admin-add of another, non-bot user in a guild without an entry, the
  stored entry of the guild has exactly that user as its admin list. The response is then the
  confirmation of the add or the save failure, and it is the confirmation when the
  first write attempt works.
\<close>

theorem admin_command_omits_owner:
  assumes "i_user_id ia = i_owner_id ia"
  shows "(state w (py_str (i_guild_id ia)) = None \<longrightarrow>
            fst (get_guild_state e w (i_guild_id ia) None)
              = \<lparr>adminIDs = [], targetIDs = [], message = []\<rparr>
            \<and> state (snd (get_guild_state e w (i_guild_id ia) None)) (py_str (i_guild_id ia))
              = Some \<lparr>adminIDs = [], targetIDs = [], message = []\<rparr>)
     \<and> (i_owner_id ia \<notin> set (admins_of w (i_guild_id ia)) \<longrightarrow>
            i_owner_id ia \<notin> set (admins_of (snd (admin_command e w ia act usr)) (i_guild_id ia)))
     \<and> (state w (py_str (i_guild_id ia)) = None \<and> \<not> u_bot usr \<and> u_id usr \<noteq> i_owner_id ia \<longrightarrow>
            state (snd (admin_command e w ia Add usr)) (py_str (i_guild_id ia))
              = Some \<lparr>adminIDs = [u_id usr], targetIDs = [], message = []\<rparr>
            \<and> admins_of (snd (admin_command e w ia Add usr)) (i_guild_id ia) = [u_id usr]
            \<and> fst (admin_command e w ia Add usr) \<in> {AddedAdmin (u_id usr), SaveFailed}
            \<and> (fs e (nwrites w) = WriteOk \<longrightarrow>
                 fst (admin_command e w ia Add usr) = AddedAdmin (u_id usr)))"
proof -
  obtain gs w2 where g: "get_guild_state e w (i_guild_id ia) None = (gs, w2)"
    by (cases "get_guild_state e w (i_guild_id ia) None")
  note cmd = admin_command_by_owner[OF assms g]
  have gs: "adminIDs gs = admins_of w (i_guild_id ia)"
    using ggs_admins[OF g] by simp
  have w2: "admins_of w2 (i_guild_id ia) = admins_of w (i_guild_id ia)"
    using ggs_admins_of[OF g] gs by simp
  have first: "state w (py_str (i_guild_id ia)) = None \<Longrightarrow>
      gs = \<lparr>adminIDs = [], targetIDs = [], message = []\<rparr> \<and> nwrites w2 = nwrites w"
    using g by (auto simp: get_guild_state_def Let_def)
  note stored = ggs_stored[OF g]
  have second: "i_owner_id ia \<notin> set (admins_of w (i_guild_id ia)) \<Longrightarrow>
      i_owner_id ia \<notin> set (admins_of (snd (admin_command e w ia act usr)) (i_guild_id ia))"
    by (cases act) (auto simp: cmd gs w2)
  have third: "state (snd (admin_command e w ia Add usr)) (py_str (i_guild_id ia))
              = Some \<lparr>adminIDs = [u_id usr], targetIDs = [], message = []\<rparr>
      \<and> admins_of (snd (admin_command e w ia Add usr)) (i_guild_id ia) = [u_id usr]
      \<and> fst (admin_command e w ia Add usr) \<in> {AddedAdmin (u_id usr), SaveFailed}
      \<and> (fs e (nwrites w) = WriteOk \<longrightarrow> fst (admin_command e w ia Add usr) = AddedAdmin (u_id usr))"
    if h: "state w (py_str (i_guild_id ia)) = None" "\<not> u_bot usr" "u_id usr \<noteq> i_owner_id ia"
  proof -
    from first[OF h(1)] have gs0: "gs = \<lparr>adminIDs = [], targetIDs = [], message = []\<rparr>"
      and n: "nwrites w2 = nwrites w" by simp_all
    let ?w3 = "store_guild w2 (i_guild_id ia) (gs\<lparr>adminIDs := adminIDs gs @ [u_id usr]\<rparr>)"
    have c: "admin_command e w ia Add usr = save_and_report e ?w3 (AddedAdmin (u_id usr))"
      using h gs0 by (simp add: cmd)
    have n3: "nwrites ?w3 = nwrites w" using n by (simp add: store_guild_def)
    have ok: "fs e (nwrites w) = WriteOk \<Longrightarrow> fst (save_state e ?w3) = Inr ()"
      using save_state_ok1[of e ?w3] n3 by simp
    have st: "state (snd (save_and_report e ?w3 (AddedAdmin (u_id usr)))) (py_str (i_guild_id ia))
          = Some \<lparr>adminIDs = [u_id usr], targetIDs = [], message = []\<rparr>"
      using gs0 by (simp add: store_guild_def)
    show ?thesis
      unfolding c using gs0 ok st
      by (auto simp: sar_response split: sum.splits)
  qed
  show ?thesis using first second third stored by (simp add: g)
qed

theorem admin_command_omits_owner_witness:
  "i_user_id \<lparr>i_guild_id = 1, i_user_id = 2, i_owner_id = 2\<rparr>
     = i_owner_id \<lparr>i_guild_id = 1, i_user_id = 2, i_owner_id = 2\<rparr>
   \<and> state fresh_world (py_str 1) = None
   \<and> fst (admin_command healthy_env fresh_world \<lparr>i_guild_id = 1, i_user_id = 2, i_owner_id = 2\<rparr>
            Add \<lparr>u_id = 5, u_bot = False\<rparr>) = AddedAdmin 5
   \<and> admins_of (snd (admin_command healthy_env fresh_world
            \<lparr>i_guild_id = 1, i_user_id = 2, i_owner_id = 2\<rparr> Add \<lparr>u_id = 5, u_bot = False\<rparr>)) 1 = [5]
   \<and> state (snd (get_guild_state healthy_env fresh_world 1 None)) (py_str 1)
       = Some \<lparr>adminIDs = [], targetIDs = [], message = []\<rparr>
   \<and> state (snd (admin_command healthy_env fresh_world
            \<lparr>i_guild_id = 1, i_user_id = 2, i_owner_id = 2\<rparr> Add \<lparr>u_id = 5, u_bot = False\<rparr>)) (py_str 1)
       = Some \<lparr>adminIDs = [5], targetIDs = [], message = []\<rparr>"
  using admin_command_omits_owner [of "\<lparr>i_guild_id = 1, i_user_id = 2, i_owner_id = 2\<rparr>"
      fresh_world healthy_env Add "\<lparr>u_id = 5, u_bot = False\<rparr>"]
  by (simp add: fresh_world_def healthy_env_def)

section \<open>Auto-reply gating\<close>

text \<open>
  C6 (as amended). For a message whose author is not the bot's own account and that
  comes from a guild, \<open>on_message\<close> requests one reply, with exactly the configured
  text, when the author is in the guild's target list and the configured message is
  not empty; in every other case it requests no reply. For the bot's own messages and
  for direct messages nothing is evaluated: the world is left as it was. The bot flag
  of the author is not read, so a message of another bot account is handled like
  that of any other author.
\<close>

theorem auto_reply_gating:
  "fst (on_message e w msg) =
     (if m_author_id msg \<noteq> client_user e
         \<and> (\<exists>g. m_guild msg = Some g
                \<and> m_author_id msg \<in> set (targets_of w (g_id g))
                \<and> message_of w (g_id g) \<noteq> [])
      then Some (message_of w (g_id (the (m_guild msg))))
      else None)
   \<and> (m_author_id msg = client_user e \<or> m_guild msg = None \<longrightarrow> snd (on_message e w msg) = w)"
proof (cases "m_author_id msg = client_user e \<or> m_guild msg = None")
  case True
  then show ?thesis by (auto simp: on_message_def)
next
  case False
  then obtain g where g: "m_guild msg = Some g" and a: "m_author_id msg \<noteq> client_user e"
    by auto
  obtain gs w1 where s: "get_guild_state e w (g_id g) (Some (g_owner_id g)) = (gs, w1)"
    by (cases "get_guild_state e w (g_id g) (Some (g_owner_id g))")
  show ?thesis
    using False ggs_targets[OF s] ggs_message[OF s]
    by (simp add: on_message_in_guild[OF a g s] g)
qed

theorem auto_reply_gating_witness:
  "fst (on_message healthy_env world_bot_target
          \<lparr>m_author_id = 7, m_author_bot = False, m_guild = Some \<lparr>g_id = 1, g_owner_id = 2\<rparr>\<rparr>)
     = Some ''Hello''
   \<and> fst (on_message healthy_env world_bot_target
          \<lparr>m_author_id = 8, m_author_bot = False, m_guild = Some \<lparr>g_id = 1, g_owner_id = 2\<rparr>\<rparr>)
     = None
   \<and> snd (on_message healthy_env world_bot_target
          \<lparr>m_author_id = 7, m_author_bot = False, m_guild = None\<rparr>) = world_bot_target
   \<and> snd (on_message healthy_env world_bot_target
          \<lparr>m_author_id = 999, m_author_bot = True, m_guild = Some \<lparr>g_id = 1, g_owner_id = 2\<rparr>\<rparr>)
       = world_bot_target"
  using auto_reply_gating [of healthy_env world_bot_target
          "\<lparr>m_author_id = 7, m_author_bot = False, m_guild = Some \<lparr>g_id = 1, g_owner_id = 2\<rparr>\<rparr>"]
        auto_reply_gating [of healthy_env world_bot_target
          "\<lparr>m_author_id = 8, m_author_bot = False, m_guild = Some \<lparr>g_id = 1, g_owner_id = 2\<rparr>\<rparr>"]
        auto_reply_gating [of healthy_env world_bot_target
          "\<lparr>m_author_id = 7, m_author_bot = False, m_guild = None\<rparr>"]
        auto_reply_gating [of healthy_env world_bot_target
          "\<lparr>m_author_id = 999, m_author_bot = True, m_guild = Some \<lparr>g_id = 1, g_owner_id = 2\<rparr>\<rparr>"]
  by (simp add: healthy_env_def targets_of_def message_of_def world_bot_target_def py_str_1)

text \<open>
  The claim as written (never evaluated for a bot actor) fails: the author 7 has the
  bot flag and is not the bot's own account 999. When 7 is in the target list of
  guild 1, the reply ``Hello'' is requested; and in a world without an entry for
  guild 1, the target check runs and creates the entry with the owner 2 as admin.
\<close>

theorem bot_author_gets_reply:
  "m_author_bot \<lparr>m_author_id = 7, m_author_bot = True, m_guild = Some \<lparr>g_id = 1, g_owner_id = 2\<rparr>\<rparr>
   \<and> fst (on_message healthy_env world_bot_target
          \<lparr>m_author_id = 7, m_author_bot = True, m_guild = Some \<lparr>g_id = 1, g_owner_id = 2\<rparr>\<rparr>)
       = Some ''Hello''
   \<and> admins_of fresh_world 1 = []
   \<and> admins_of (snd (on_message healthy_env fresh_world
          \<lparr>m_author_id = 7, m_author_bot = True, m_guild = Some \<lparr>g_id = 1, g_owner_id = 2\<rparr>\<rparr>)) 1
       = [2]"
  by (simp add: model_defs healthy_env_def world_bot_target_def fresh_world_def py_str_1)

section \<open>Self-demotion\<close>

text \<open>
  C2 (as amended). An admin-remove command whose target is the actor, where the actor
  is in the admin list and is not the owner:
  \<^item> without a valid pending confirmation (none, or one older than 60 seconds), it
    answers with the confirmation prompt, records a pending confirmation and removes
    nothing from the admin list; the list changes only by the accessor's append of
    a missing owner. The recorded timestamp is the clock reading that
    \<open>request_confirmation\<close> makes in this invocation: the first reading of the
    invocation when there was no entry, the second when the check has read the clock
    to find the old entry expired. A second invocation, whose check makes the next
    clock reading, removes the actor from the list and deletes the pending entry
    when that reading is within 60 seconds of the recorded one;
  \<^item> with a valid pending confirmation, it removes the first occurrence of the actor
    from the admin list (so the actor is gone when the list has no duplicates) and
    deletes the pending entry; the response is the confirmation of the removal or
    the save failure.

  When the target is neither the actor nor the owner, is in the admin list, and the
  actor is the owner or an admin, the target is removed at once: the pending
  confirmations are untouched and the clock is not read.
\<close>

theorem self_demotion_protocol:
  fixes e :: env and w :: world and ia :: interaction and usr :: user
  defines "g \<equiv> i_guild_id ia" and "u \<equiv> i_user_id ia" and "ow \<equiv> i_owner_id ia"
    and "k \<equiv> conf_key (i_guild_id ia) (i_user_id ia)"
    and "r1 \<equiv> admin_command e w ia Remove usr"
    and "r2 \<equiv> admin_command e (snd (admin_command e w ia Remove usr)) ia Remove usr"
  shows
    "(u_id usr = u \<and> u \<noteq> ow \<and> u \<in> set (admins_of w g) \<longrightarrow>
        ((\<forall>t. pending_confirmations w k = Some t \<longrightarrow> 60 < clock e (nclock w) - t) \<longrightarrow>
            fst r1 = ConfirmPrompt
            \<and> pending_confirmations (snd r1) k =
                 Some (clock e (case pending_confirmations w k of
                                  None \<Rightarrow> nclock w | Some t \<Rightarrow> nclock w + 1))
            \<and> nclock (snd r1) =
                 (case pending_confirmations w k of None \<Rightarrow> nclock w + 1 | Some t \<Rightarrow> nclock w + 2)
            \<and> admins_of (snd r1) g =
                 (if ow \<in> set (admins_of w g) then admins_of w g else admins_of w g @ [ow])
            \<and> (clock e (nclock (snd r1)) - the (pending_confirmations (snd r1) k) \<le> 60 \<longrightarrow>
                 fst r2 \<in> {SelfRemoved, SaveFailed}
                 \<and> admins_of (snd r2) g = remove1 u (admins_of (snd r1) g)
                 \<and> pending_confirmations (snd r2) k = None))
        \<and> (\<forall>t. pending_confirmations w k = Some t \<and> clock e (nclock w) - t \<le> 60 \<longrightarrow>
            fst r1 \<in> {SelfRemoved, SaveFailed}
            \<and> admins_of (snd r1) g =
                 remove1 u (if ow \<in> set (admins_of w g) then admins_of w g else admins_of w g @ [ow])
            \<and> pending_confirmations (snd r1) k = None
            \<and> (distinct (admins_of w g) \<longrightarrow> u \<notin> set (admins_of (snd r1) g))))
     \<and> (u_id usr \<noteq> u \<and> u_id usr \<noteq> ow \<and> u_id usr \<in> set (admins_of w g)
          \<and> (u = ow \<or> u \<in> set (admins_of w g)) \<longrightarrow>
            fst r1 \<in> {RemovedAdmin (u_id usr), SaveFailed}
            \<and> admins_of (snd r1) g =
                 remove1 (u_id usr)
                   (if u = ow \<or> ow \<in> set (admins_of w g) then admins_of w g else admins_of w g @ [ow])
            \<and> pending_confirmations (snd r1) = pending_confirmations w
            \<and> nclock (snd r1) = nclock w)"
proof -
  have first: "fst r1 = ConfirmPrompt
            \<and> pending_confirmations (snd r1) k =
                 Some (clock e (case pending_confirmations w k of
                                  None \<Rightarrow> nclock w | Some t \<Rightarrow> nclock w + 1))
            \<and> nclock (snd r1) =
                 (case pending_confirmations w k of None \<Rightarrow> nclock w + 1 | Some t \<Rightarrow> nclock w + 2)
            \<and> admins_of (snd r1) g =
                 (if ow \<in> set (admins_of w g) then admins_of w g else admins_of w g @ [ow])
            \<and> (clock e (nclock (snd r1)) - the (pending_confirmations (snd r1) k) \<le> 60 \<longrightarrow>
                 fst r2 \<in> {SelfRemoved, SaveFailed}
                 \<and> admins_of (snd r2) g = remove1 u (admins_of (snd r1) g)
                 \<and> pending_confirmations (snd r2) k = None)"
    if h: "u_id usr = u" "u \<noteq> ow" "u \<in> set (admins_of w g)"
      and nv: "\<forall>t. pending_confirmations w k = Some t \<longrightarrow> 60 < clock e (nclock w) - t"
  proof -
    note f = self_demotion_first[OF h[unfolded u_def ow_def g_def] nv[unfolded k_def],
               folded r1_def g_def u_def ow_def k_def]
    from f(3) obtain ts where ts: "pending_confirmations (snd r1) k = Some ts" by blast
    have m1: "u \<in> set (admins_of (snd r1) g)" using f(2) h(3) by simp
    have o1: "ow \<in> set (admins_of (snd r1) g)" using f(2) by simp
    have second: "fst r2 \<in> {SelfRemoved, SaveFailed}
         \<and> admins_of (snd r2) g = remove1 u (admins_of (snd r1) g)
         \<and> pending_confirmations (snd r2) k = None"
      if win: "clock e (nclock (snd r1)) - ts \<le> 60"
      using self_demotion_confirm[of usr ia "snd r1" ts e,
              folded g_def u_def ow_def k_def, OF h(1,2) m1 ts win] o1
      by (simp add: r2_def r1_def)
    show ?thesis using f(1,2,4) f(3) ts second by simp
  qed
  have confirm: "fst r1 \<in> {SelfRemoved, SaveFailed}
            \<and> admins_of (snd r1) g =
                 remove1 u (if ow \<in> set (admins_of w g) then admins_of w g else admins_of w g @ [ow])
            \<and> pending_confirmations (snd r1) k = None
            \<and> (distinct (admins_of w g) \<longrightarrow> u \<notin> set (admins_of (snd r1) g))"
    if h: "u_id usr = u" "u \<noteq> ow" "u \<in> set (admins_of w g)"
      and p: "pending_confirmations w k = Some t" "clock e (nclock w) - t \<le> 60" for t
    using self_demotion_confirm[OF h[unfolded u_def ow_def g_def] p[unfolded k_def],
            folded r1_def g_def u_def ow_def k_def] h(2)
    by auto
  have other: "fst r1 \<in> {RemovedAdmin (u_id usr), SaveFailed}
            \<and> admins_of (snd r1) g =
                 remove1 (u_id usr)
                   (if u = ow \<or> ow \<in> set (admins_of w g) then admins_of w g else admins_of w g @ [ow])
            \<and> pending_confirmations (snd r1) = pending_confirmations w
            \<and> nclock (snd r1) = nclock w"
    if h: "u_id usr \<noteq> u" "u_id usr \<noteq> ow" "u_id usr \<in> set (admins_of w g)"
          "u = ow \<or> u \<in> set (admins_of w g)"
    using remove_other_admin[of usr ia w e, OF h[unfolded u_def ow_def g_def],
            folded r1_def g_def u_def ow_def] by simp
  show ?thesis using first confirm other by blast
qed

theorem self_demotion_protocol_witness:
  "fst (admin_command (env_at 100) world_one_admin
          \<lparr>i_guild_id = 1, i_user_id = 5, i_owner_id = 2\<rparr> Remove \<lparr>u_id = 5, u_bot = False\<rparr>)
     = ConfirmPrompt
   \<and> pending_confirmations (snd (admin_command (env_at 100) world_one_admin
          \<lparr>i_guild_id = 1, i_user_id = 5, i_owner_id = 2\<rparr> Remove \<lparr>u_id = 5, u_bot = False\<rparr>))
        (conf_key 1 5)
     = Some 100
   \<and> admins_of (snd (admin_command (env_at 100) world_one_admin
          \<lparr>i_guild_id = 1, i_user_id = 5, i_owner_id = 2\<rparr> Remove \<lparr>u_id = 5, u_bot = False\<rparr>)) 1
     = [5, 2]
   \<and> admins_of (snd (admin_command (env_at 100)
          (snd (admin_command (env_at 100) world_one_admin
             \<lparr>i_guild_id = 1, i_user_id = 5, i_owner_id = 2\<rparr> Remove \<lparr>u_id = 5, u_bot = False\<rparr>))
          \<lparr>i_guild_id = 1, i_user_id = 5, i_owner_id = 2\<rparr> Remove \<lparr>u_id = 5, u_bot = False\<rparr>)) 1
     = [2]
   \<and> pending_confirmations (snd (admin_command (env_at 100)
          (snd (admin_command (env_at 100) world_one_admin
             \<lparr>i_guild_id = 1, i_user_id = 5, i_owner_id = 2\<rparr> Remove \<lparr>u_id = 5, u_bot = False\<rparr>))
          \<lparr>i_guild_id = 1, i_user_id = 5, i_owner_id = 2\<rparr> Remove \<lparr>u_id = 5, u_bot = False\<rparr>))
        (conf_key 1 5)
     = None
   \<and> admins_of (snd (admin_command (env_at 160) world_pending
          \<lparr>i_guild_id = 1, i_user_id = 5, i_owner_id = 2\<rparr> Remove \<lparr>u_id = 5, u_bot = False\<rparr>)) 1
     = [2]
   \<and> admins_of (snd (admin_command (env_at 100) world_one_admin
          \<lparr>i_guild_id = 1, i_user_id = 2, i_owner_id = 2\<rparr> Remove \<lparr>u_id = 5, u_bot = False\<rparr>)) 1
     = []"
proof -
  have a: "admins_of world_one_admin 1 = [5]" "admins_of world_pending 1 = [5]"
    by (simp_all add: admins_of_def world_one_admin_def world_pending_def py_str_1)
  have p: "pending_confirmations world_one_admin (conf_key 1 5) = None"
      "pending_confirmations world_pending (conf_key 1 5) = Some 100"
    by (simp_all add: world_one_admin_def world_pending_def conf_key_1_5)
  have c: "clock (env_at t) n = t" for t n
    by (simp add: env_at_def)
  have first: "pending_confirmations (snd (admin_command (env_at 100) world_one_admin
          \<lparr>i_guild_id = 1, i_user_id = 5, i_owner_id = 2\<rparr> Remove \<lparr>u_id = 5, u_bot = False\<rparr>))
        (conf_key 1 5) = Some 100"
     "nclock (snd (admin_command (env_at 100) world_one_admin
          \<lparr>i_guild_id = 1, i_user_id = 5, i_owner_id = 2\<rparr> Remove \<lparr>u_id = 5, u_bot = False\<rparr>)) = 1"
    by (simp_all add: model_defs env_at_def world_one_admin_def py_str_1 conf_key_1_5
        py_str_def str_nat.simps digit_char_def)
  show ?thesis
    using self_demotion_protocol [where e = "env_at 100" and w = world_one_admin
            and ia = "\<lparr>i_guild_id = 1, i_user_id = 5, i_owner_id = 2\<rparr>"
            and usr = "\<lparr>u_id = 5, u_bot = False\<rparr>"]
          self_demotion_protocol [where e = "env_at 160" and w = world_pending
            and ia = "\<lparr>i_guild_id = 1, i_user_id = 5, i_owner_id = 2\<rparr>"
            and usr = "\<lparr>u_id = 5, u_bot = False\<rparr>"]
          self_demotion_protocol [where e = "env_at 100" and w = world_one_admin
            and ia = "\<lparr>i_guild_id = 1, i_user_id = 2, i_owner_id = 2\<rparr>"
            and usr = "\<lparr>u_id = 5, u_bot = False\<rparr>"]
    by (simp add: a p first c)
qed

text \<open>
  The claim as written fails in two ways. The first invocation does change the admin
  list: admin 5 of guild 1 (list \<open>[5]\<close>, owner 2) asks for their own removal, gets the
  prompt, and the list is \<open>[5, 2]\<close>. And an actor in the admin list who is the owner
  gets no confirmation step: owner 2, in the list \<open>[2]\<close>, is refused and no pending
  confirmation is recorded.
\<close>

theorem self_demotion_changes_admins:
  "admins_of world_one_admin 1 = [5]
   \<and> pending_confirmations world_one_admin (conf_key 1 5) = None
   \<and> fst (admin_command healthy_env world_one_admin
          \<lparr>i_guild_id = 1, i_user_id = 5, i_owner_id = 2\<rparr> Remove \<lparr>u_id = 5, u_bot = False\<rparr>)
       = ConfirmPrompt
   \<and> admins_of (snd (admin_command healthy_env world_one_admin
          \<lparr>i_guild_id = 1, i_user_id = 5, i_owner_id = 2\<rparr> Remove \<lparr>u_id = 5, u_bot = False\<rparr>)) 1
       = [5, 2]
   \<and> admins_of world_bot_target 1 = [2]
   \<and> fst (admin_command healthy_env world_bot_target
          \<lparr>i_guild_id = 1, i_user_id = 2, i_owner_id = 2\<rparr> Remove \<lparr>u_id = 2, u_bot = False\<rparr>)
       = CannotRemoveOwner
   \<and> pending_confirmations (snd (admin_command healthy_env world_bot_target
          \<lparr>i_guild_id = 1, i_user_id = 2, i_owner_id = 2\<rparr> Remove \<lparr>u_id = 2, u_bot = False\<rparr>))
        (conf_key 1 2) = None"
  by (simp add: model_defs healthy_env_def world_one_admin_def world_bot_target_def py_str_1
      py_str_def str_nat.simps digit_char_def)

section \<open>No duplicate membership\<close>

text \<open>
  C4 (as amended). From a world in which no admin list and no target list holds a
  user id twice, every sequence of operations (admin and target commands with either
  action, set-message commands, chat messages, calls of the accessor) leads to a
  world with the same property. An add whose user is already a member (or, for
  admin-add, is the owner) is rejected and does not append that user: the response is
  ``no permission'' for an actor who is neither owner nor admin, ``cannot add bots''
  for a bot, ``already an admin'' or ``already in the target list'' otherwise. A
  rejected target-add leaves the target list as it was. A rejected admin-add leaves
  the admin list as it was, except that the accessor called by the authorization
  check appends the owner when the actor is not the owner and the owner is missing
  from the list.
\<close>

theorem no_duplicate_membership:
  "(no_duplicates w \<longrightarrow>
      no_duplicates (run_ops e w ops)
      \<and> distinct (admins_of (run_ops e w ops) g)
      \<and> distinct (targets_of (run_ops e w ops) g))
   \<and> (u_id usr \<in> set (admins_of w (i_guild_id ia)) \<or> u_id usr = i_owner_id ia \<longrightarrow>
        fst (admin_command e w ia Add usr) =
          (if \<not> (i_user_id ia = i_owner_id ia \<or> i_user_id ia \<in> set (admins_of w (i_guild_id ia)))
           then NoPermission
           else if u_bot usr then CannotAddBotAdmin else AlreadyAdmin (u_id usr))
        \<and> admins_of (snd (admin_command e w ia Add usr)) (i_guild_id ia) =
          (if i_user_id ia = i_owner_id ia \<or> i_owner_id ia \<in> set (admins_of w (i_guild_id ia))
           then admins_of w (i_guild_id ia)
           else admins_of w (i_guild_id ia) @ [i_owner_id ia]))
   \<and> (u_id usr \<in> set (targets_of w (i_guild_id ia)) \<longrightarrow>
        fst (target_command e w ia Add usr) =
          (if \<not> (i_user_id ia = i_owner_id ia \<or> i_user_id ia \<in> set (admins_of w (i_guild_id ia)))
           then NoPermission
           else if u_bot usr then CannotAddBotTarget else AlreadyTarget (u_id usr))
        \<and> targets_of (snd (target_command e w ia Add usr)) (i_guild_id ia) =
          targets_of w (i_guild_id ia))"
  using nodup_run_ops[of w e ops] nodup_lists[of "run_ops e w ops" g]
    admin_add_rejected[of usr w ia e] target_add_rejected[of usr w ia e]
  by blast

theorem no_duplicate_membership_witness:
  "no_duplicates world_two_admins
   \<and> no_duplicates (run_ops healthy_env world_two_admins
        [AdminOp \<lparr>i_guild_id = 1, i_user_id = 5, i_owner_id = 2\<rparr> Add \<lparr>u_id = 9, u_bot = False\<rparr>,
         AdminOp \<lparr>i_guild_id = 1, i_user_id = 5, i_owner_id = 2\<rparr> Add \<lparr>u_id = 9, u_bot = False\<rparr>,
         TargetOp \<lparr>i_guild_id = 1, i_user_id = 5, i_owner_id = 2\<rparr> Add \<lparr>u_id = 8, u_bot = False\<rparr>,
         AccessorOp 1 (Some 2)])
   \<and> fst (admin_command healthy_env world_two_admins
          \<lparr>i_guild_id = 1, i_user_id = 2, i_owner_id = 2\<rparr> Add \<lparr>u_id = 7, u_bot = False\<rparr>)
       = AlreadyAdmin 7
   \<and> admins_of (snd (admin_command healthy_env world_two_admins
          \<lparr>i_guild_id = 1, i_user_id = 2, i_owner_id = 2\<rparr> Add \<lparr>u_id = 7, u_bot = False\<rparr>)) 1
       = [5, 7]
   \<and> fst (target_command healthy_env world_two_admins
          \<lparr>i_guild_id = 1, i_user_id = 2, i_owner_id = 2\<rparr> Add \<lparr>u_id = 8, u_bot = False\<rparr>)
       = AlreadyTarget 8
   \<and> targets_of (snd (target_command healthy_env world_two_admins
          \<lparr>i_guild_id = 1, i_user_id = 2, i_owner_id = 2\<rparr> Add \<lparr>u_id = 8, u_bot = False\<rparr>)) 1
       = [8]"
proof -
  have n: "no_duplicates world_two_admins"
    by (simp add: no_duplicates_def world_two_admins_def)
  have a: "admins_of world_two_admins 1 = [5, 7]" "targets_of world_two_admins 1 = [8]"
    by (simp_all add: admins_of_def targets_of_def world_two_admins_def py_str_1)
  show ?thesis
    using n no_duplicate_membership [of world_two_admins healthy_env
        "[AdminOp \<lparr>i_guild_id = 1, i_user_id = 5, i_owner_id = 2\<rparr> Add \<lparr>u_id = 9, u_bot = False\<rparr>,
          AdminOp \<lparr>i_guild_id = 1, i_user_id = 5, i_owner_id = 2\<rparr> Add \<lparr>u_id = 9, u_bot = False\<rparr>,
          TargetOp \<lparr>i_guild_id = 1, i_user_id = 5, i_owner_id = 2\<rparr> Add \<lparr>u_id = 8, u_bot = False\<rparr>,
          AccessorOp 1 (Some 2)]" 1
        "\<lparr>u_id = 7, u_bot = False\<rparr>" "\<lparr>i_guild_id = 1, i_user_id = 2, i_owner_id = 2\<rparr>"]
      no_duplicate_membership [of world_two_admins healthy_env "[]" 1
        "\<lparr>u_id = 8, u_bot = False\<rparr>" "\<lparr>i_guild_id = 1, i_user_id = 2, i_owner_id = 2\<rparr>"]
    by (simp add: a)
qed

text \<open>
  The claim as written (rejected without modifying the list) fails: admin 5 of guild 1
  (admin list \<open>[5, 7]\<close>, owner 2) asks to add 7. The add is rejected with ``already an
  admin'', and the admin list is \<open>[5, 7, 2]\<close> afterwards.
\<close>

theorem rejected_add_mutates_admins:
  "admins_of world_two_admins 1 = [5, 7]
   \<and> fst (admin_command healthy_env world_two_admins
          \<lparr>i_guild_id = 1, i_user_id = 5, i_owner_id = 2\<rparr> Add \<lparr>u_id = 7, u_bot = False\<rparr>)
       = AlreadyAdmin 7
   \<and> admins_of (snd (admin_command healthy_env world_two_admins
          \<lparr>i_guild_id = 1, i_user_id = 5, i_owner_id = 2\<rparr> Add \<lparr>u_id = 7, u_bot = False\<rparr>)) 1
       = [5, 7, 2]"
  by (simp add: model_defs healthy_env_def world_two_admins_def py_str_1)

section \<open>A failed save is reported and the mutation stays\<close>

text \<open>
  C9. In every mutating branch of the commands (admin add, removal of another admin,
  confirmed self-demotion, target add, target remove, set-message): when the
  authorization and the validation have passed and \<open>save_state\<close> on the mutated world
  fails (it fails only after its three attempts), the response is ``failed to save
  configuration'', not a confirmation, and the state of the resulting world is the
  mutated state: the appended or removed id, the cleared confirmation and the new
  message are still there. The names \<open>ga\<close>, \<open>wa\<close> (\<open>gt\<close>, \<open>wt\<close>) stand for the entry and the
  world that the accessor of the admin command (of the other commands) returns after
  the authorization check.
\<close>

theorem persist_failure_reported:
  fixes e :: env and w :: world and ia :: interaction and usr :: user and new_text :: string
  defines "g \<equiv> i_guild_id ia" and "t \<equiv> u_id usr"
    and "allowed \<equiv> fst (is_admin e w (i_guild_id ia) (i_user_id ia) (i_owner_id ia))"
    and "w1 \<equiv> snd (is_admin e w (i_guild_id ia) (i_user_id ia) (i_owner_id ia))"
  defines "ga \<equiv> fst (get_guild_state e w1 g None)"
    and "wa \<equiv> snd (get_guild_state e w1 g None)"
    and "gt \<equiv> fst (get_guild_state e w1 g (Some (i_owner_id ia)))"
    and "wt \<equiv> snd (get_guild_state e w1 g (Some (i_owner_id ia)))"
  defines "m_add \<equiv> store_guild wa g (ga\<lparr>adminIDs := adminIDs ga @ [t]\<rparr>)"
    and "m_remove \<equiv> store_guild wa g (ga\<lparr>adminIDs := remove1 t (adminIDs ga)\<rparr>)"
    and "m_self \<equiv>
          clear_confirmation
            (store_guild (snd (check_confirmation e wa g (i_user_id ia))) g
               (ga\<lparr>adminIDs := remove1 t (adminIDs ga)\<rparr>))
            g (i_user_id ia)"
    and "m_tadd \<equiv> store_guild wt g (gt\<lparr>targetIDs := targetIDs gt @ [t]\<rparr>)"
    and "m_tremove \<equiv> store_guild wt g (gt\<lparr>targetIDs := remove1 t (targetIDs gt)\<rparr>)"
    and "m_message \<equiv> store_guild wt g (gt\<lparr>message := new_text\<rparr>)"
  shows
    "(allowed \<and> \<not> u_bot usr \<and> t \<notin> set (adminIDs ga) \<and> t \<noteq> i_owner_id ia
        \<and> isl (fst (save_state e m_add)) \<longrightarrow>
          fst (admin_command e w ia Add usr) = SaveFailed
          \<and> state (snd (admin_command e w ia Add usr)) = state m_add
          \<and> admins_of (snd (admin_command e w ia Add usr)) g = adminIDs ga @ [t])
     \<and> (allowed \<and> t \<noteq> i_owner_id ia \<and> t \<in> set (adminIDs ga) \<and> t \<noteq> i_user_id ia
        \<and> isl (fst (save_state e m_remove)) \<longrightarrow>
          fst (admin_command e w ia Remove usr) = SaveFailed
          \<and> state (snd (admin_command e w ia Remove usr)) = state m_remove
          \<and> admins_of (snd (admin_command e w ia Remove usr)) g = remove1 t (adminIDs ga))
     \<and> (allowed \<and> t \<noteq> i_owner_id ia \<and> t \<in> set (adminIDs ga) \<and> t = i_user_id ia
        \<and> fst (check_confirmation e wa g (i_user_id ia))
        \<and> isl (fst (save_state e m_self)) \<longrightarrow>
          fst (admin_command e w ia Remove usr) = SaveFailed
          \<and> state (snd (admin_command e w ia Remove usr)) = state m_self
          \<and> admins_of (snd (admin_command e w ia Remove usr)) g = remove1 t (adminIDs ga)
          \<and> pending_confirmations (snd (admin_command e w ia Remove usr))
                (conf_key g (i_user_id ia)) = None)
     \<and> (allowed \<and> \<not> u_bot usr \<and> t \<notin> set (targetIDs gt)
        \<and> isl (fst (save_state e m_tadd)) \<longrightarrow>
          fst (target_command e w ia Add usr) = SaveFailed
          \<and> state (snd (target_command e w ia Add usr)) = state m_tadd
          \<and> targets_of (snd (target_command e w ia Add usr)) g = targetIDs gt @ [t])
     \<and> (allowed \<and> t \<in> set (targetIDs gt)
        \<and> isl (fst (save_state e m_tremove)) \<longrightarrow>
          fst (target_command e w ia Remove usr) = SaveFailed
          \<and> state (snd (target_command e w ia Remove usr)) = state m_tremove
          \<and> targets_of (snd (target_command e w ia Remove usr)) g = remove1 t (targetIDs gt))
     \<and> (allowed \<and> isl (fst (save_state e m_message)) \<longrightarrow>
          fst (setmessage_command e w ia new_text) = SaveFailed
          \<and> state (snd (setmessage_command e w ia new_text)) = state m_message
          \<and> message_of (snd (setmessage_command e w ia new_text)) g = new_text)"
proof -
  have a: "is_admin e w (i_guild_id ia) (i_user_id ia) (i_owner_id ia) = (allowed, w1)"
    by (simp add: allowed_def w1_def)
  have sa: "get_guild_state e w1 (i_guild_id ia) None = (ga, wa)"
    by (simp add: ga_def wa_def g_def)
  have st: "get_guild_state e w1 (i_guild_id ia) (Some (i_owner_id ia)) = (gt, wt)"
    by (simp add: gt_def wt_def g_def)
  note ac = admin_command_run[where usr = usr, OF a sa, folded g_def t_def]
  note tc = target_command_run[where usr = usr, OF a st, folded g_def t_def]
  note mc = setmessage_command_run[OF a st, folded g_def]
  have c1: "fst (admin_command e w ia Add usr) = SaveFailed
          \<and> state (snd (admin_command e w ia Add usr)) = state m_add
          \<and> admins_of (snd (admin_command e w ia Add usr)) g = adminIDs ga @ [t]"
    if "allowed" "\<not> u_bot usr" "t \<notin> set (adminIDs ga)" "t \<noteq> i_owner_id ia"
       "isl (fst (save_state e m_add))"
    using that(1-4) sar_failed[OF that(5)]
    by (simp add: ac[of Add] m_add_def[symmetric]) (simp add: m_add_def)
  have c2: "fst (admin_command e w ia Remove usr) = SaveFailed
          \<and> state (snd (admin_command e w ia Remove usr)) = state m_remove
          \<and> admins_of (snd (admin_command e w ia Remove usr)) g = remove1 t (adminIDs ga)"
    if "allowed" "t \<noteq> i_owner_id ia" "t \<in> set (adminIDs ga)" "t \<noteq> i_user_id ia"
       "isl (fst (save_state e m_remove))"
    using that(1-4) sar_failed[OF that(5)]
    by (simp add: ac[of Remove] m_remove_def[symmetric]) (simp add: m_remove_def)
  have c3: "fst (admin_command e w ia Remove usr) = SaveFailed
          \<and> state (snd (admin_command e w ia Remove usr)) = state m_self
          \<and> admins_of (snd (admin_command e w ia Remove usr)) g = remove1 t (adminIDs ga)
          \<and> pending_confirmations (snd (admin_command e w ia Remove usr))
                (conf_key g (i_user_id ia)) = None"
    if "allowed" "t \<noteq> i_owner_id ia" "t \<in> set (adminIDs ga)" "t = i_user_id ia"
       "fst (check_confirmation e wa g (i_user_id ia))"
       "isl (fst (save_state e m_self))"
  proof -
    have r: "admin_command e w ia Remove usr = (SaveFailed, snd (save_state e m_self))"
      using that(1-5) sar_failed[OF that(6)] unfolding m_self_def
      by (simp add: ac[of Remove])
    show ?thesis
      by (simp add: r) (simp add: m_self_def clear_confirmation_pending)
  qed
  have c4: "fst (target_command e w ia Add usr) = SaveFailed
          \<and> state (snd (target_command e w ia Add usr)) = state m_tadd
          \<and> targets_of (snd (target_command e w ia Add usr)) g = targetIDs gt @ [t]"
    if "allowed" "\<not> u_bot usr" "t \<notin> set (targetIDs gt)" "isl (fst (save_state e m_tadd))"
    using that(1-3) sar_failed[OF that(4)]
    by (simp add: tc[of Add] m_tadd_def[symmetric]) (simp add: m_tadd_def)
  have c5: "fst (target_command e w ia Remove usr) = SaveFailed
          \<and> state (snd (target_command e w ia Remove usr)) = state m_tremove
          \<and> targets_of (snd (target_command e w ia Remove usr)) g = remove1 t (targetIDs gt)"
    if "allowed" "t \<in> set (targetIDs gt)" "isl (fst (save_state e m_tremove))"
    using that(1-2) sar_failed[OF that(3)]
    by (simp add: tc[of Remove] m_tremove_def[symmetric]) (simp add: m_tremove_def)
  have c6: "fst (setmessage_command e w ia new_text) = SaveFailed
          \<and> state (snd (setmessage_command e w ia new_text)) = state m_message
          \<and> message_of (snd (setmessage_command e w ia new_text)) g = new_text"
    if "allowed" "isl (fst (save_state e m_message))"
    using that(1) sar_failed[OF that(2)]
    by (simp add: mc m_message_def[symmetric]) (simp add: m_message_def)
  show ?thesis using c1 c2 c3 c4 c5 c6 by blast
qed

theorem persist_failure_reported_witness:
  "fst (admin_command failing_env world_one_admin
          \<lparr>i_guild_id = 1, i_user_id = 2, i_owner_id = 2\<rparr> Add \<lparr>u_id = 9, u_bot = False\<rparr>)
     = SaveFailed
   \<and> admins_of (snd (admin_command failing_env world_one_admin
          \<lparr>i_guild_id = 1, i_user_id = 2, i_owner_id = 2\<rparr> Add \<lparr>u_id = 9, u_bot = False\<rparr>)) 1
     = [5, 9]
   \<and> fst (admin_command failing_env world_one_admin
          \<lparr>i_guild_id = 1, i_user_id = 2, i_owner_id = 2\<rparr> Remove \<lparr>u_id = 5, u_bot = False\<rparr>)
     = SaveFailed
   \<and> admins_of (snd (admin_command failing_env world_one_admin
          \<lparr>i_guild_id = 1, i_user_id = 2, i_owner_id = 2\<rparr> Remove \<lparr>u_id = 5, u_bot = False\<rparr>)) 1
     = []
   \<and> fst (admin_command failing_env world_pending
          \<lparr>i_guild_id = 1, i_user_id = 5, i_owner_id = 2\<rparr> Remove \<lparr>u_id = 5, u_bot = False\<rparr>)
     = SaveFailed
   \<and> admins_of (snd (admin_command failing_env world_pending
          \<lparr>i_guild_id = 1, i_user_id = 5, i_owner_id = 2\<rparr> Remove \<lparr>u_id = 5, u_bot = False\<rparr>)) 1
     = [2]
   \<and> fst (target_command failing_env world_two_admins
          \<lparr>i_guild_id = 1, i_user_id = 5, i_owner_id = 2\<rparr> Add \<lparr>u_id = 9, u_bot = False\<rparr>)
     = SaveFailed
   \<and> targets_of (snd (target_command failing_env world_two_admins
          \<lparr>i_guild_id = 1, i_user_id = 5, i_owner_id = 2\<rparr> Add \<lparr>u_id = 9, u_bot = False\<rparr>)) 1
     = [8, 9]
   \<and> fst (target_command failing_env world_two_admins
          \<lparr>i_guild_id = 1, i_user_id = 5, i_owner_id = 2\<rparr> Remove \<lparr>u_id = 8, u_bot = False\<rparr>)
     = SaveFailed
   \<and> targets_of (snd (target_command failing_env world_two_admins
          \<lparr>i_guild_id = 1, i_user_id = 5, i_owner_id = 2\<rparr> Remove \<lparr>u_id = 8, u_bot = False\<rparr>)) 1
     = []
   \<and> fst (setmessage_command failing_env world_two_admins
          \<lparr>i_guild_id = 1, i_user_id = 5, i_owner_id = 2\<rparr> ''pong'')
     = SaveFailed
   \<and> message_of (snd (setmessage_command failing_env world_two_admins
          \<lparr>i_guild_id = 1, i_user_id = 5, i_owner_id = 2\<rparr> ''pong'')) 1
     = ''pong''"
proof -
  note defs = is_admin_def get_guild_state_def store_guild_def check_confirmation_def
    clear_confirmation_def now_timestamp_def conf_key_1_5 save_state_def save_loop.simps
    MAX_SAVE_RETRIES_def Let_def failing_env_def world_one_admin_def world_pending_def
    world_two_admins_def py_str_1
  have 1: "fst (admin_command failing_env world_one_admin
          \<lparr>i_guild_id = 1, i_user_id = 2, i_owner_id = 2\<rparr> Add \<lparr>u_id = 9, u_bot = False\<rparr>)
     = SaveFailed
   \<and> admins_of (snd (admin_command failing_env world_one_admin
          \<lparr>i_guild_id = 1, i_user_id = 2, i_owner_id = 2\<rparr> Add \<lparr>u_id = 9, u_bot = False\<rparr>)) 1
     = [5, 9]"
    using persist_failure_reported [where e = failing_env and w = world_one_admin
        and ia = "\<lparr>i_guild_id = 1, i_user_id = 2, i_owner_id = 2\<rparr>"
        and usr = "\<lparr>u_id = 9, u_bot = False\<rparr>", THEN conjunct1]
    by (simp add: defs)
  have 2: "fst (admin_command failing_env world_one_admin
          \<lparr>i_guild_id = 1, i_user_id = 2, i_owner_id = 2\<rparr> Remove \<lparr>u_id = 5, u_bot = False\<rparr>)
     = SaveFailed
   \<and> admins_of (snd (admin_command failing_env world_one_admin
          \<lparr>i_guild_id = 1, i_user_id = 2, i_owner_id = 2\<rparr> Remove \<lparr>u_id = 5, u_bot = False\<rparr>)) 1
     = []"
    using persist_failure_reported [where e = failing_env and w = world_one_admin
        and ia = "\<lparr>i_guild_id = 1, i_user_id = 2, i_owner_id = 2\<rparr>"
        and usr = "\<lparr>u_id = 5, u_bot = False\<rparr>", THEN conjunct2, THEN conjunct1]
    by (simp add: defs)
  have 3: "fst (admin_command failing_env world_pending
          \<lparr>i_guild_id = 1, i_user_id = 5, i_owner_id = 2\<rparr> Remove \<lparr>u_id = 5, u_bot = False\<rparr>)
     = SaveFailed
   \<and> admins_of (snd (admin_command failing_env world_pending
          \<lparr>i_guild_id = 1, i_user_id = 5, i_owner_id = 2\<rparr> Remove \<lparr>u_id = 5, u_bot = False\<rparr>)) 1
     = [2]"
    using persist_failure_reported [where e = failing_env and w = world_pending
        and ia = "\<lparr>i_guild_id = 1, i_user_id = 5, i_owner_id = 2\<rparr>"
        and usr = "\<lparr>u_id = 5, u_bot = False\<rparr>", THEN conjunct2, THEN conjunct2, THEN conjunct1]
    by (simp add: defs)
  have 4: "fst (target_command failing_env world_two_admins
          \<lparr>i_guild_id = 1, i_user_id = 5, i_owner_id = 2\<rparr> Add \<lparr>u_id = 9, u_bot = False\<rparr>)
     = SaveFailed
   \<and> targets_of (snd (target_command failing_env world_two_admins
          \<lparr>i_guild_id = 1, i_user_id = 5, i_owner_id = 2\<rparr> Add \<lparr>u_id = 9, u_bot = False\<rparr>)) 1
     = [8, 9]"
    using persist_failure_reported [where e = failing_env and w = world_two_admins
        and ia = "\<lparr>i_guild_id = 1, i_user_id = 5, i_owner_id = 2\<rparr>"
        and usr = "\<lparr>u_id = 9, u_bot = False\<rparr>",
        THEN conjunct2, THEN conjunct2, THEN conjunct2, THEN conjunct1]
    by (simp add: defs)
  have 5: "fst (target_command failing_env world_two_admins
          \<lparr>i_guild_id = 1, i_user_id = 5, i_owner_id = 2\<rparr> Remove \<lparr>u_id = 8, u_bot = False\<rparr>)
     = SaveFailed
   \<and> targets_of (snd (target_command failing_env world_two_admins
          \<lparr>i_guild_id = 1, i_user_id = 5, i_owner_id = 2\<rparr> Remove \<lparr>u_id = 8, u_bot = False\<rparr>)) 1
     = []"
    using persist_failure_reported [where e = failing_env and w = world_two_admins
        and ia = "\<lparr>i_guild_id = 1, i_user_id = 5, i_owner_id = 2\<rparr>"
        and usr = "\<lparr>u_id = 8, u_bot = False\<rparr>",
        THEN conjunct2, THEN conjunct2, THEN conjunct2, THEN conjunct2, THEN conjunct1]
    by (simp add: defs)
  have 6: "fst (setmessage_command failing_env world_two_admins
          \<lparr>i_guild_id = 1, i_user_id = 5, i_owner_id = 2\<rparr> ''pong'')
     = SaveFailed
   \<and> message_of (snd (setmessage_command failing_env world_two_admins
          \<lparr>i_guild_id = 1, i_user_id = 5, i_owner_id = 2\<rparr> ''pong'')) 1
     = ''pong''"
    using persist_failure_reported [where e = failing_env and w = world_two_admins
        and ia = "\<lparr>i_guild_id = 1, i_user_id = 5, i_owner_id = 2\<rparr>"
        and new_text = "''pong''",
        THEN conjunct2, THEN conjunct2, THEN conjunct2, THEN conjunct2, THEN conjunct2]
    by (simp add: defs)
  from 1 2 3 4 5 6 show ?thesis by blast
qed

end
